theory Spec2Isabelle
  imports Main "HOL-Library.List_Lexorder" "HOL-Library.Char_ord"
begin

section \<open>Python values\<close>

text \<open>
  The four scripts exchange JSON messages, so the values they handle are the ones
  \<^verbatim>\<open>json.loads\<close> produces and \<^verbatim>\<open>json.dumps\<close> accepts: \<^verbatim>\<open>None\<close>, booleans,
  integers (unbounded), strings, lists, tuples and dictionaries with string keys.
  A dictionary is an association list in insertion order; Python keeps its keys
  distinct (\<open>wf_py\<close> below). Floating-point numbers are not modelled. Strings are
  lists of 8-bit characters, read as the code points 0..255.
\<close>

datatype pyval =
    PNone
  | PBool bool
  | PInt int
  | PStr string
  | PList "pyval list"
  | PTuple "pyval list"
  | PDict "(string \<times> pyval) list"

text \<open>
  Exceptions are values. \<^verbatim>\<open>SystemExit\<close> is kept apart from the subclasses of
  \<^verbatim>\<open>Exception\<close> because \<^verbatim>\<open>except Exception\<close> does not catch it.
\<close>

datatype exn =
    Exc string
  | SystemExit string

fun wf_py :: "pyval \<Rightarrow> bool" where
  "wf_py (PList xs) = list_all wf_py xs"
| "wf_py (PTuple xs) = list_all wf_py xs"
| "wf_py (PDict d) = (distinct (map fst d) \<and> list_all (\<lambda>kv. wf_py (snd kv)) d)"
| "wf_py _ = True"

section \<open>Canonical serialisation: \<^verbatim>\<open>json.dumps(obj, separators=(",", ":"), sort_keys=True)\<close>\<close>

text \<open>\<^verbatim>\<open>sep.join(parts)\<close>\<close>

fun join :: "string \<Rightarrow> string list \<Rightarrow> string" where
  "join sep [] = []"
| "join sep [x] = x"
| "join sep (x # y # ys) = x @ sep @ join sep (y # ys)"

definition hex_digit :: "nat \<Rightarrow> char" where
  "hex_digit n = ''0123456789abcdef'' ! n"

text \<open>
  The encoder's escape table (\<^verbatim>\<open>ensure_ascii\<close> is left at its default): the quote,
  the backslash and everything outside the printable range \<^verbatim>\<open>' '..'~'\<close> is escaped,
  with the short forms for \<^verbatim>\<open>\b \f \n \r \t\<close> and \<^verbatim>\<open>\u00xx\<close> otherwise.
\<close>

definition escape_char :: "char \<Rightarrow> string" where
  "escape_char c =
     (if c = CHR 0x22 then [CHR 0x5C, CHR 0x22]
      else if c = CHR 0x5C then [CHR 0x5C, CHR 0x5C]
      else if c = CHR 0x0A then [CHR 0x5C, CHR ''n'']
      else if c = CHR 0x0D then [CHR 0x5C, CHR ''r'']
      else if c = CHR 0x09 then [CHR 0x5C, CHR ''t'']
      else if c = CHR 0x08 then [CHR 0x5C, CHR ''b'']
      else if c = CHR 0x0C then [CHR 0x5C, CHR ''f'']
      else if 0x20 \<le> (of_char c :: nat) \<and> (of_char c :: nat) \<le> 0x7E then [c]
      else [CHR 0x5C, CHR ''u'', CHR ''0'', CHR ''0'',
            hex_digit (of_char c div 16), hex_digit (of_char c mod 16)])"

definition encode_basestring_ascii :: "string \<Rightarrow> string" where
  "encode_basestring_ascii s = [CHR 0x22] @ concat (map escape_char s) @ [CHR 0x22]"

definition digit_char :: "nat \<Rightarrow> char" where
  "digit_char n = ''0123456789'' ! n"

fun nat_repr :: "nat \<Rightarrow> string" where
  "nat_repr n =
     (if n < 10 then [digit_char n] else nat_repr (n div 10) @ [digit_char (n mod 10)])"

declare nat_repr.simps [simp del]

text \<open>\<^verbatim>\<open>int.__repr__\<close>: decimal digits, a minus sign for negative numbers.\<close>

definition int_repr :: "int \<Rightarrow> string" where
  "int_repr i = (if i < 0 then CHR ''-'' # nat_repr (nat (- i)) else nat_repr (nat i))"

text \<open>
  With \<^verbatim>\<open>sort_keys=True\<close> the encoder walks \<^verbatim>\<open>sorted(dct.items())\<close>; the keys of a
  dictionary are distinct, so the order is the order of the keys, which Python compares
  code point by code point. The separators are \<^verbatim>\<open>","\<close> and \<^verbatim>\<open>":"\<close>, with no space.
\<close>

fun json_dumps :: "pyval \<Rightarrow> string" where
  "json_dumps PNone = ''null''"
| "json_dumps (PBool b) = (if b then ''true'' else ''false'')"
| "json_dumps (PInt i) = int_repr i"
| "json_dumps (PStr s) = encode_basestring_ascii s"
| "json_dumps (PList xs) = ''['' @ join '','' (map json_dumps xs) @ '']''"
| "json_dumps (PTuple xs) = ''['' @ join '','' (map json_dumps xs) @ '']''"
| "json_dumps (PDict d) =
     ''{'' @ join '',''
              (map (\<lambda>kv. encode_basestring_ascii (fst kv) @ '':'' @ json_dumps (snd kv))
                   (sort_key fst d)) @ ''}''"

text \<open>
  Two values are the same mapping when they agree up to the order in which the keys of
  their dictionaries were inserted, at every depth. On dictionaries this is Python's
  own test (equal length, every item of the one found in the other).
\<close>

fun same_mapping :: "pyval \<Rightarrow> pyval \<Rightarrow> bool"
  and same_list :: "pyval list \<Rightarrow> pyval list \<Rightarrow> bool"
  and same_items :: "(string \<times> pyval) list \<Rightarrow> (string \<times> pyval) list \<Rightarrow> bool" where
  "same_mapping (PDict d1) (PDict d2) = (length d1 = length d2 \<and> same_items d1 d2)"
| "same_mapping (PList xs) (PList ys) = same_list xs ys"
| "same_mapping (PTuple xs) (PTuple ys) = same_list xs ys"
| "same_mapping PNone PNone = True"
| "same_mapping (PBool a) (PBool b) = (a = b)"
| "same_mapping (PInt a) (PInt b) = (a = b)"
| "same_mapping (PStr a) (PStr b) = (a = b)"
| "same_mapping _ _ = False"
| "same_list [] [] = True"
| "same_list (x # xs) (y # ys) = (same_mapping x y \<and> same_list xs ys)"
| "same_list _ _ = False"
| "same_items [] d2 = True"
| "same_items ((k, v) # d1) d2 =
     ((case map_of d2 k of None \<Rightarrow> False | Some v' \<Rightarrow> same_mapping v v') \<and> same_items d1 d2)"

text \<open>The items of a dictionary with their values serialised.\<close>

definition rendered :: "(string \<times> pyval) list \<Rightarrow> (string \<times> string) list" where
  "rendered d = map (\<lambda>kv. (fst kv, json_dumps (snd kv))) d"

section \<open>Parsing: \<^verbatim>\<open>json.loads\<close>\<close>

text \<open>
  The decoder of the standard library: \<^verbatim>\<open>scanstring\<close> reads a string literal after
  its opening quote, \<^verbatim>\<open>scan_once\<close> reads one value, \<^verbatim>\<open>JSONArray\<close> and
  \<^verbatim>\<open>JSONObject\<close> read the items of a list and of an object. Each of them returns the
  value and the rest of the text. The recursion is bounded by a fuel argument, as
  Python's is by the recursion limit; \<open>json_loads\<close> gives it more fuel than the text
  has characters. A number with a fraction or an exponent, and \<^verbatim>\<open>NaN\<close> and
  \<^verbatim>\<open>Infinity\<close>, are floats: they are reported as \<open>Exc ''float''\<close>, and an escape
  \<^verbatim>\<open>\uXXXX\<close> above 255 as \<open>Exc ''code point above 255''\<close>; both lie outside the
  model.
\<close>

definition is_ws :: "char \<Rightarrow> bool" where
  "is_ws c = (c = CHR '' '' \<or> c = CHR 0x09 \<or> c = CHR 0x0A \<or> c = CHR 0x0D)"

definition skip_ws :: "string \<Rightarrow> string" where
  "skip_ws s = dropWhile is_ws s"

definition is_digit :: "char \<Rightarrow> bool" where
  "is_digit c = (CHR ''0'' \<le> c \<and> c \<le> CHR ''9'')"

definition digit_val :: "char \<Rightarrow> nat" where
  "digit_val c = of_char c - 48"

definition nat_of_digits :: "string \<Rightarrow> nat" where
  "nat_of_digits ds = foldl (\<lambda>n c. 10 * n + digit_val c) 0 ds"

definition hex_val :: "char \<Rightarrow> nat option" where
  "hex_val c =
     (if CHR ''0'' \<le> c \<and> c \<le> CHR ''9'' then Some (of_char c - 48)
      else if CHR ''a'' \<le> c \<and> c \<le> CHR ''f'' then Some (of_char c - 87)
      else if CHR ''A'' \<le> c \<and> c \<le> CHR ''F'' then Some (of_char c - 55)
      else None)"

definition decode_uXXXX :: "char \<Rightarrow> char \<Rightarrow> char \<Rightarrow> char \<Rightarrow> nat option" where
  "decode_uXXXX a b c d =
     (case (hex_val a, hex_val b, hex_val c, hex_val d) of
        (Some w, Some x, Some y, Some z) \<Rightarrow> Some (((w * 16 + x) * 16 + y) * 16 + z)
      | _ \<Rightarrow> None)"

definition BACKSLASH :: "char \<Rightarrow> char option" where
  "BACKSLASH e =
     (if e = CHR 0x22 then Some (CHR 0x22)
      else if e = CHR 0x5C then Some (CHR 0x5C)
      else if e = CHR ''/'' then Some (CHR ''/'')
      else if e = CHR ''b'' then Some (CHR 0x08)
      else if e = CHR ''f'' then Some (CHR 0x0C)
      else if e = CHR ''n'' then Some (CHR 0x0A)
      else if e = CHR ''r'' then Some (CHR 0x0D)
      else if e = CHR ''t'' then Some (CHR 0x09)
      else None)"

definition JSONDecodeError :: "string \<Rightarrow> exn" where
  "JSONDecodeError msg = Exc (''JSONDecodeError: '' @ msg)"

fun scanstring :: "string \<Rightarrow> exn + (string \<times> string)" where
  "scanstring [] = Inl (JSONDecodeError ''Unterminated string'')"
| "scanstring (c # cs) =
     (if c = CHR 0x22 then Inr ([], cs)
      else if c = CHR 0x5C then
        (case cs of
           [] \<Rightarrow> Inl (JSONDecodeError ''Unterminated string'')
         | e # es \<Rightarrow>
             if e = CHR ''u'' then
               (case es of
                  h1 # h2 # h3 # h4 # rest \<Rightarrow>
                    (case decode_uXXXX h1 h2 h3 h4 of
                       None \<Rightarrow> Inl (JSONDecodeError ''Invalid uXXXX escape'')
                     | Some uni \<Rightarrow>
                         if uni < 256 then
                           (case scanstring rest of
                              Inl err \<Rightarrow> Inl err
                            | Inr (chunk, r) \<Rightarrow> Inr (char_of uni # chunk, r))
                         else Inl (Exc ''code point above 255''))
                | _ \<Rightarrow> Inl (JSONDecodeError ''Invalid uXXXX escape''))
             else
               (case BACKSLASH e of
                  None \<Rightarrow> Inl (JSONDecodeError ''Invalid escape'')
                | Some ch \<Rightarrow>
                    (case scanstring es of
                       Inl err \<Rightarrow> Inl err
                     | Inr (chunk, r) \<Rightarrow> Inr (ch # chunk, r))))
      else if (of_char c :: nat) < 0x20 then Inl (JSONDecodeError ''Invalid control character'')
      else (case scanstring cs of
              Inl err \<Rightarrow> Inl err
            | Inr (chunk, r) \<Rightarrow> Inr (c # chunk, r)))"


definition scan_integer :: "string \<Rightarrow> (bool \<times> string \<times> string) option" where
  "scan_integer s =
     (let neg = (case s of c # _ \<Rightarrow> c = CHR ''-'' | [] \<Rightarrow> False);
          r = (if neg then tl s else s)
      in case r of
           [] \<Rightarrow> None
         | c # cs \<Rightarrow>
             if c = CHR ''0'' then Some (neg, [c], cs)
             else if is_digit c then Some (neg, takeWhile is_digit r, dropWhile is_digit r)
             else None)"

definition has_frac :: "string \<Rightarrow> bool" where
  "has_frac r = (case r of c # d # _ \<Rightarrow> c = CHR ''.'' \<and> is_digit d | _ \<Rightarrow> False)"

definition has_exp :: "string \<Rightarrow> bool" where
  "has_exp r =
     (case r of
        e # r' \<Rightarrow>
          (e = CHR ''e'' \<or> e = CHR ''E'') \<and>
          (case r' of
             [] \<Rightarrow> False
           | s # r'' \<Rightarrow>
               if s = CHR ''+'' \<or> s = CHR ''-'' then (case r'' of d # _ \<Rightarrow> is_digit d | [] \<Rightarrow> False)
               else is_digit s)
      | [] \<Rightarrow> False)"

definition scan_number :: "string \<Rightarrow> exn + (pyval \<times> string)" where
  "scan_number s =
     (case scan_integer s of
        Some (neg, ds, r) \<Rightarrow>
          if has_frac r \<or> has_exp r then Inl (Exc ''float'')
          else Inr (PInt (if neg then - int (nat_of_digits ds) else int (nat_of_digits ds)), r)
      | None \<Rightarrow>
          if take 3 s = ''NaN'' \<or> take 8 s = ''Infinity'' \<or> take 9 s = ''-Infinity''
          then Inl (Exc ''float'')
          else Inl (JSONDecodeError ''Expecting value''))"

fun dict_set :: "(string \<times> pyval) list \<Rightarrow> string \<Rightarrow> pyval \<Rightarrow> (string \<times> pyval) list" where
  "dict_set [] k v = [(k, v)]"
| "dict_set ((k', v') # d) k v = (if k' = k then (k', v) # d else (k', v') # dict_set d k v)"

definition dict_of_pairs :: "(string \<times> pyval) list \<Rightarrow> (string \<times> pyval) list" where
  "dict_of_pairs pairs = foldl (\<lambda>d kv. dict_set d (fst kv) (snd kv)) [] pairs"

fun scan_once :: "nat \<Rightarrow> string \<Rightarrow> exn + (pyval \<times> string)"
  and JSONArray :: "nat \<Rightarrow> string \<Rightarrow> exn + (pyval list \<times> string)"
  and JSONObject :: "nat \<Rightarrow> string \<Rightarrow> exn + ((string \<times> pyval) list \<times> string)" where
  "scan_once 0 s = Inl (Exc ''RecursionError'')"
| "scan_once (Suc fuel) s =
     (case s of
        [] \<Rightarrow> Inl (JSONDecodeError ''Expecting value'')
      | nextchar # cs \<Rightarrow>
          if nextchar = CHR 0x22 then
            (case scanstring cs of
               Inl err \<Rightarrow> Inl err
             | Inr (str, r) \<Rightarrow> Inr (PStr str, r))
          else if nextchar = CHR ''{'' then
            (case skip_ws cs of
               [] \<Rightarrow> Inl (JSONDecodeError ''Expecting property name enclosed in double quotes'')
             | c # r \<Rightarrow>
                 if c = CHR ''}'' then Inr (PDict [], r)
                 else if c = CHR 0x22 then
                   (case JSONObject fuel r of
                      Inl err \<Rightarrow> Inl err
                    | Inr (pairs, r') \<Rightarrow> Inr (PDict (dict_of_pairs pairs), r'))
                 else Inl (JSONDecodeError ''Expecting property name enclosed in double quotes''))
          else if nextchar = CHR ''['' then
            (case skip_ws cs of
               [] \<Rightarrow> Inl (JSONDecodeError ''Expecting value'')
             | c # r \<Rightarrow>
                 if c = CHR '']'' then Inr (PList [], r)
                 else (case JSONArray fuel (c # r) of
                         Inl err \<Rightarrow> Inl err
                       | Inr (values, r') \<Rightarrow> Inr (PList values, r')))
          else if take 4 s = ''null'' then Inr (PNone, drop 4 s)
          else if take 4 s = ''true'' then Inr (PBool True, drop 4 s)
          else if take 5 s = ''false'' then Inr (PBool False, drop 5 s)
          else scan_number s)"
| "JSONArray 0 s = Inl (Exc ''RecursionError'')"
| "JSONArray (Suc fuel) s =
     (case scan_once fuel s of
        Inl err \<Rightarrow> Inl err
      | Inr (v, r) \<Rightarrow>
          (case skip_ws r of
             [] \<Rightarrow> Inl (JSONDecodeError ''Expecting , delimiter'')
           | c # r' \<Rightarrow>
               if c = CHR '']'' then Inr ([v], r')
               else if c = CHR '','' then
                 (case JSONArray fuel (skip_ws r') of
                    Inl err \<Rightarrow> Inl err
                  | Inr (vs, r'') \<Rightarrow> Inr (v # vs, r''))
               else Inl (JSONDecodeError ''Expecting , delimiter'')))"
| "JSONObject 0 s = Inl (Exc ''RecursionError'')"
| "JSONObject (Suc fuel) s =
     (case scanstring s of
        Inl err \<Rightarrow> Inl err
      | Inr (key, r) \<Rightarrow>
          (case skip_ws r of
             [] \<Rightarrow> Inl (JSONDecodeError ''Expecting : delimiter'')
           | c # r' \<Rightarrow>
               if c \<noteq> CHR '':'' then Inl (JSONDecodeError ''Expecting : delimiter'')
               else
                 (case scan_once fuel (skip_ws r') of
                    Inl err \<Rightarrow> Inl err
                  | Inr (v, r'') \<Rightarrow>
                      (case skip_ws r'' of
                         [] \<Rightarrow> Inl (JSONDecodeError ''Expecting , delimiter'')
                       | d # r3 \<Rightarrow>
                           if d = CHR ''}'' then Inr ([(key, v)], r3)
                           else if d = CHR '','' then
                             (case skip_ws r3 of
                                [] \<Rightarrow> Inl (JSONDecodeError ''Expecting property name enclosed in double quotes'')
                              | q # r4 \<Rightarrow>
                                  if q = CHR 0x22 then
                                    (case JSONObject fuel r4 of
                                       Inl err \<Rightarrow> Inl err
                                     | Inr (kvs, r5) \<Rightarrow> Inr ((key, v) # kvs, r5))
                                  else Inl (JSONDecodeError ''Expecting property name enclosed in double quotes''))
                           else Inl (JSONDecodeError ''Expecting , delimiter'')))))"

definition json_loads :: "string \<Rightarrow> exn + pyval" where
  "json_loads s =
     (case scan_once (Suc (length s)) (skip_ws s) of
        Inl err \<Rightarrow> Inl err
      | Inr (obj, r) \<Rightarrow>
          if skip_ws r = [] then Inr obj else Inl (JSONDecodeError ''Extra data''))"

section \<open>Bytes: UTF-8 and base64\<close>

text \<open>\<^verbatim>\<open>str.encode()\<close> on code points below 256.\<close>

definition utf8_char :: "char \<Rightarrow> string" where
  "utf8_char c =
     (if (of_char c :: nat) < 128 then [c]
      else [char_of (192 + (of_char c :: nat) div 64), char_of (128 + (of_char c :: nat) mod 64)])"

definition str_encode :: "string \<Rightarrow> string" where
  "str_encode s = concat (map utf8_char s)"

text \<open>
  \<^verbatim>\<open>bytes.decode()\<close>. Sequences that denote a code point above 255 have no
  counterpart in the 8-bit string model and are reported under a name of their own.
\<close>

fun bytes_decode :: "string \<Rightarrow> exn + string" where
  "bytes_decode [] = Inr []"
| "bytes_decode (c # cs) =
     (if (of_char c :: nat) < 128 then
        (case bytes_decode cs of Inl e \<Rightarrow> Inl e | Inr r \<Rightarrow> Inr (c # r))
      else if (of_char c :: nat) < 0xC2 \<or> 0xF4 < (of_char c :: nat) then Inl (Exc ''UnicodeDecodeError'')
      else if 0xC3 < (of_char c :: nat) then Inl (Exc ''code point above 255'')
      else (case cs of
              [] \<Rightarrow> Inl (Exc ''UnicodeDecodeError'')
            | d # ds \<Rightarrow>
                if (of_char d :: nat) < 128 \<or> 191 < (of_char d :: nat) then Inl (Exc ''UnicodeDecodeError'')
                else (case bytes_decode ds of
                        Inl e \<Rightarrow> Inl e
                      | Inr r \<Rightarrow>
                          Inr (char_of (((of_char c :: nat) - 192) * 64 + ((of_char d :: nat) - 128)) # r))))"

definition b64_alphabet :: string where
  "b64_alphabet = ''ABCDEFGHIJKLMNOPQRSTUVWXYZabcdefghijklmnopqrstuvwxyz0123456789+/''"

definition b64_char :: "nat \<Rightarrow> char" where
  "b64_char n = b64_alphabet ! n"

text \<open>\<^verbatim>\<open>base64.b64encode\<close>: three bytes become four characters, padded with \<^verbatim>\<open>=\<close>.\<close>

fun b64encode :: "string \<Rightarrow> string" where
  "b64encode [] = []"
| "b64encode [a] =
     [b64_char (of_char a div 4), b64_char (of_char a mod 4 * 16), CHR ''='', CHR ''='']"
| "b64encode [a, b] =
     [b64_char (of_char a div 4), b64_char (of_char a mod 4 * 16 + of_char b div 16),
      b64_char (of_char b mod 16 * 4), CHR ''='']"
| "b64encode (a # b # c # rest) =
     [b64_char (of_char a div 4), b64_char (of_char a mod 4 * 16 + of_char b div 16),
      b64_char (of_char b mod 16 * 4 + of_char c div 64), b64_char (of_char c mod 64)]
     @ b64encode rest"

text \<open>
  \<^verbatim>\<open>base64.b64decode\<close> without validation, which is \<^verbatim>\<open>binascii.a2b_base64\<close> in its
  non-strict mode: characters outside the alphabet are skipped, \<open>quad_pos\<close> counts the
  characters of the current group of four, \<open>leftchar\<close> holds the bits not yet written,
  and a complete run of padding ends the input. A \<^verbatim>\<open>str\<close> argument must be ASCII.
\<close>

definition b64_index :: "char \<Rightarrow> nat option" where
  "b64_index c =
     (if CHR ''A'' \<le> c \<and> c \<le> CHR ''Z'' then Some (of_char c - 65)
      else if CHR ''a'' \<le> c \<and> c \<le> CHR ''z'' then Some (of_char c - 71)
      else if CHR ''0'' \<le> c \<and> c \<le> CHR ''9'' then Some (of_char c + 4)
      else if c = CHR ''+'' then Some 62
      else if c = CHR ''/'' then Some 63
      else None)"

definition emit :: "nat \<Rightarrow> exn + string \<Rightarrow> exn + string" where
  "emit byte r = (case r of Inl e \<Rightarrow> Inl e | Inr bin_data \<Rightarrow> Inr (char_of byte # bin_data))"

fun a2b_base64 :: "nat \<Rightarrow> nat \<Rightarrow> nat \<Rightarrow> string \<Rightarrow> exn + string" where
  "a2b_base64 quad_pos leftchar pads [] =
     (if quad_pos = 0 then Inr []
      else if quad_pos = 1 then Inl (Exc ''binascii.Error: Invalid base64-encoded string'')
      else Inl (Exc ''binascii.Error: Incorrect padding''))"
| "a2b_base64 quad_pos leftchar pads (this_ch # ascii_data) =
     (if this_ch = CHR ''='' then
        (if 2 \<le> quad_pos \<and> 4 \<le> quad_pos + (pads + 1) then Inr []
         else a2b_base64 quad_pos leftchar (if 2 \<le> quad_pos then pads + 1 else pads) ascii_data)
      else
        (case b64_index this_ch of
           None \<Rightarrow> a2b_base64 quad_pos leftchar pads ascii_data
         | Some v \<Rightarrow>
             if quad_pos = 0 then a2b_base64 1 v 0 ascii_data
             else if quad_pos = 1 then
               emit (leftchar * 4 + v div 16) (a2b_base64 2 (v mod 16) 0 ascii_data)
             else if quad_pos = 2 then
               emit (leftchar * 16 + v div 4) (a2b_base64 3 (v mod 4) 0 ascii_data)
             else emit (leftchar * 64 + v) (a2b_base64 0 0 0 ascii_data)))"

fun b64decode :: "pyval \<Rightarrow> exn + string" where
  "b64decode (PStr s) =
     (if list_all (\<lambda>c. (of_char c :: nat) < 128) s then a2b_base64 0 0 0 s
      else Inl (Exc ''ValueError''))"
| "b64decode _ = Inl (Exc ''TypeError'')"

section \<open>Python operations on values\<close>

text \<open>
  \<open>py_eq\<close> is \<^verbatim>\<open>==\<close> (a boolean equals the integer 0 or 1; dictionaries compare
  regardless of order), \<open>py_contains k obj\<close> is \<^verbatim>\<open>k in obj\<close>, \<open>py_getitem obj k\<close> is
  \<^verbatim>\<open>obj[k]\<close>, \<open>py_get obj k\<close> is \<^verbatim>\<open>obj.get(k)\<close> and \<open>py_int\<close> is \<^verbatim>\<open>int(x)\<close>,
  each with the exception it raises on a value of the wrong type.
\<close>

fun py_eq :: "pyval \<Rightarrow> pyval \<Rightarrow> bool"
  and py_eq_list :: "pyval list \<Rightarrow> pyval list \<Rightarrow> bool"
  and py_eq_items :: "(string \<times> pyval) list \<Rightarrow> (string \<times> pyval) list \<Rightarrow> bool" where
  "py_eq PNone PNone = True"
| "py_eq (PBool a) (PBool b) = (a = b)"
| "py_eq (PBool a) (PInt b) = ((if a then 1 else 0) = b)"
| "py_eq (PInt a) (PBool b) = (a = (if b then 1 else 0))"
| "py_eq (PInt a) (PInt b) = (a = b)"
| "py_eq (PStr a) (PStr b) = (a = b)"
| "py_eq (PList xs) (PList ys) = py_eq_list xs ys"
| "py_eq (PTuple xs) (PTuple ys) = py_eq_list xs ys"
| "py_eq (PDict d1) (PDict d2) = (length d1 = length d2 \<and> py_eq_items d1 d2)"
| "py_eq _ _ = False"
| "py_eq_list [] [] = True"
| "py_eq_list (x # xs) (y # ys) = (py_eq x y \<and> py_eq_list xs ys)"
| "py_eq_list _ _ = False"
| "py_eq_items [] d2 = True"
| "py_eq_items ((k, v) # d1) d2 =
     ((case map_of d2 k of None \<Rightarrow> False | Some v' \<Rightarrow> py_eq v v') \<and> py_eq_items d1 d2)"

fun is_substring :: "string \<Rightarrow> string \<Rightarrow> bool" where
  "is_substring sub [] = (sub = [])"
| "is_substring sub (c # cs) = (take (length sub) (c # cs) = sub \<or> is_substring sub cs)"

fun py_contains :: "string \<Rightarrow> pyval \<Rightarrow> exn + bool" where
  "py_contains k (PDict d) = Inr (map_of d k \<noteq> None)"
| "py_contains k (PList xs) = Inr (list_ex (\<lambda>x. py_eq x (PStr k)) xs)"
| "py_contains k (PTuple xs) = Inr (list_ex (\<lambda>x. py_eq x (PStr k)) xs)"
| "py_contains k (PStr s) = Inr (is_substring k s)"
| "py_contains k _ = Inl (Exc ''TypeError'')"

fun py_getitem :: "pyval \<Rightarrow> string \<Rightarrow> exn + pyval" where
  "py_getitem (PDict d) k = (case map_of d k of None \<Rightarrow> Inl (Exc ''KeyError'') | Some v \<Rightarrow> Inr v)"
| "py_getitem _ k = Inl (Exc ''TypeError'')"

fun py_get :: "pyval \<Rightarrow> string \<Rightarrow> exn + pyval" where
  "py_get (PDict d) k = Inr (case map_of d k of None \<Rightarrow> PNone | Some v \<Rightarrow> v)"
| "py_get _ k = Inl (Exc ''AttributeError'')"

definition is_space :: "char \<Rightarrow> bool" where
  "is_space c = ((of_char c :: nat) \<in> {9, 10, 11, 12, 13, 32, 133, 160})"

definition strip :: "string \<Rightarrow> string" where
  "strip s = rev (dropWhile is_space (rev (dropWhile is_space s)))"

fun int_digits :: "string \<Rightarrow> bool" where
  "int_digits [] = False"
| "int_digits [d] = is_digit d"
| "int_digits (d # c # cs) =
     (is_digit d \<and> (if c = CHR ''_'' then int_digits cs else int_digits (c # cs)))"

definition int_of_str :: "string \<Rightarrow> exn + int" where
  "int_of_str s =
     (let t = strip s;
          neg = (case t of c # _ \<Rightarrow> c = CHR ''-'' | [] \<Rightarrow> False);
          signed = (case t of c # _ \<Rightarrow> c = CHR ''-'' \<or> c = CHR ''+'' | [] \<Rightarrow> False);
          ds = (if signed then tl t else t)
      in if int_digits ds
         then (let n = int (nat_of_digits (filter (\<lambda>c. c \<noteq> CHR ''_'') ds))
               in Inr (if neg then - n else n))
         else Inl (Exc ''ValueError''))"

fun py_int :: "pyval \<Rightarrow> exn + int" where
  "py_int (PInt i) = Inr i"
| "py_int (PBool b) = Inr (if b then 1 else 0)"
| "py_int (PStr s) = int_of_str s"
| "py_int _ = Inl (Exc ''TypeError'')"

section \<open>The PGPy library\<close>

text \<open>
  A key object, as far as the scripts look at it: its fingerprint, whether it is a
  public key, whether its secret material is passphrase-protected, and whether that
  material is currently unlocked (decrypted in memory).
\<close>

record pgpkey =
  fingerprint :: string
  is_public :: bool
  is_protected :: bool
  unlocked :: bool

text \<open>
  The cryptography itself is the library's: it is a parameter of the model, a record of
  the operations the scripts call, over a type \<open>'m\<close> of message objects.
  \<open>PGPKey_unprotect\<close> tells whether a passphrase opens a key.
\<close>

record 'm pgpy =
  PGPKey_from_file :: "string \<Rightarrow> exn + pgpkey"
  PGPMessage_new :: "string \<Rightarrow> 'm"
  PGPKey_encrypt :: "pgpkey \<Rightarrow> 'm \<Rightarrow> exn + 'm"
  PGPMessage_str :: "'m \<Rightarrow> string"
  PGPMessage_from_blob :: "string \<Rightarrow> exn + 'm"
  PGPKey_decrypt :: "pgpkey \<Rightarrow> 'm \<Rightarrow> exn + 'm"
  PGPMessage_message :: "'m \<Rightarrow> string"
  PGPKey_unprotect :: "pgpkey \<Rightarrow> string option \<Rightarrow> bool"

section \<open>Sealing a message\<close>

text \<open>\<^verbatim>\<open>encrypt_to_server\<close> of \<^verbatim>\<open>fixed_rmap_client.py\<close>.\<close>

definition encrypt_to_server :: "'m pgpy \<Rightarrow> pyval \<Rightarrow> pgpkey \<Rightarrow> exn + string" where
  "encrypt_to_server lib obj server_pub_key =
     (let plaintext = json_dumps obj;
          msg = PGPMessage_new lib plaintext
      in case PGPKey_encrypt lib server_pub_key msg of
           Inl e \<Rightarrow> Inl e
         | Inr enc \<Rightarrow>
             let armored = PGPMessage_str lib enc
             in bytes_decode (b64encode (str_encode armored)))"

text \<open>
  \<^verbatim>\<open>encrypt_to_server\<close> of \<^verbatim>\<open>rmap_client_test.py\<close>; the server's public key is a
  module-level variable there.
\<close>

definition test_encrypt_to_server :: "'m pgpy \<Rightarrow> pgpkey \<Rightarrow> pyval \<Rightarrow> exn + string" where
  "test_encrypt_to_server lib server_pub_key obj =
     (let plaintext = json_dumps obj;
          msg = PGPMessage_new lib plaintext
      in case PGPKey_encrypt lib server_pub_key msg of
           Inl e \<Rightarrow> Inl e
         | Inr enc \<Rightarrow>
             let armored = PGPMessage_str lib enc
             in bytes_decode (b64encode (str_encode armored)))"

text \<open>\<^verbatim>\<open>WorkingIdentityManager\<close> of \<^verbatim>\<open>rmap_client_pdf_getting.py\<close>.\<close>

record WorkingIdentityManager =
  client_priv :: pgpkey
  server_pub :: pgpkey
  passphrase :: "string option"

definition encrypt_for_server :: "'m pgpy \<Rightarrow> WorkingIdentityManager \<Rightarrow> pyval \<Rightarrow> exn + string" where
  "encrypt_for_server lib self obj =
     (let msg = json_dumps obj;
          pgpmsg = PGPMessage_new lib msg
      in case PGPKey_encrypt lib (server_pub self) pgpmsg of
           Inl e \<Rightarrow> Inl e
         | Inr encrypted \<Rightarrow>
             let armored = PGPMessage_str lib encrypted
             in bytes_decode (b64encode (str_encode armored)))"

text \<open>\<^verbatim>\<open>SimpleRMAPClient\<close> of \<^verbatim>\<open>test_group_rmap.py\<close>.\<close>

record SimpleRMAPClient =
  your_priv_key :: pgpkey
  target_pub_key :: pgpkey
  client_passphrase :: "string option"

definition encrypt_to_target :: "'m pgpy \<Rightarrow> SimpleRMAPClient \<Rightarrow> pyval \<Rightarrow> exn + string" where
  "encrypt_to_target lib self data =
     (let msg = json_dumps data;
          pgpmsg = PGPMessage_new lib msg
      in case PGPKey_encrypt lib (target_pub_key self) pgpmsg of
           Inl e \<Rightarrow> Inl e
         | Inr encrypted \<Rightarrow> bytes_decode (b64encode (str_encode (PGPMessage_str lib encrypted))))"

section \<open>Opening a message\<close>

text \<open>
  \<^verbatim>\<open>with key.unlock(passphrase): body\<close>. PGPy's \<^verbatim>\<open>unlock\<close> is a context manager: for
  a public or an unprotected key it only yields the key; otherwise it decrypts the secret
  material with the passphrase, yields, and clears the decrypted material in a
  \<^verbatim>\<open>finally\<close> clause, so on every way out of the body, and also when the passphrase
  does not open the key. The key is a mutable object, so the body and the whole
  statement return it with their result.
\<close>

definition unlock :: "'m pgpy \<Rightarrow> pgpkey \<Rightarrow> string option
    \<Rightarrow> (pgpkey \<Rightarrow> (exn + 'a) \<times> pgpkey) \<Rightarrow> (exn + 'a) \<times> pgpkey" where
  "unlock lib key pw body =
     (if is_public key \<or> \<not> is_protected key then body key
      else if PGPKey_unprotect lib key pw then
        (case body (key\<lparr>unlocked := True\<rparr>) of (r, key') \<Rightarrow> (r, key'\<lparr>unlocked := False\<rparr>))
      else (Inl (Exc ''PGPDecryptionError''), key\<lparr>unlocked := False\<rparr>))"

text \<open>The module-level constants of \<^verbatim>\<open>fixed_rmap_client.py\<close> (``edit these'').\<close>

record config =
  IDENTITY :: string
  SERVER_PUB_KEY_CANDIDATES :: "string list"
  CLIENT_PRIV_KEY_PATH :: string
  CLIENT_PRIV_PASSPHRASE :: "string option"

text \<open>\<^verbatim>\<open>decrypt_from_server\<close> of \<^verbatim>\<open>fixed_rmap_client.py\<close>.\<close>

definition decrypt_from_server ::
  "'m pgpy \<Rightarrow> config \<Rightarrow> pyval \<Rightarrow> pgpkey \<Rightarrow> (exn + pyval) \<times> pgpkey" where
  "decrypt_from_server lib cfg payload_b64 client_priv_key =
     (case b64decode payload_b64 of
        Inl e \<Rightarrow> (Inl e, client_priv_key)
      | Inr armored \<Rightarrow>
     (case PGPMessage_from_blob lib armored of
        Inl e \<Rightarrow> (Inl e, client_priv_key)
      | Inr pgp_msg \<Rightarrow>
          if is_protected client_priv_key \<and> CLIENT_PRIV_PASSPHRASE cfg = None then
            (Inl (SystemExit ''Private key needs passphrase but none provided.''), client_priv_key)
          else
            (case (if is_protected client_priv_key
                   then unlock lib client_priv_key (CLIENT_PRIV_PASSPHRASE cfg)
                          (\<lambda>key. (PGPKey_decrypt lib key pgp_msg, key))
                   else (PGPKey_decrypt lib client_priv_key pgp_msg, client_priv_key)) of
               (Inl e, key') \<Rightarrow> (Inl e, key')
             | (Inr dec, key') \<Rightarrow> (json_loads (PGPMessage_message lib dec), key'))))"

text \<open>\<^verbatim>\<open>WorkingIdentityManager.decrypt_for_client\<close> of \<^verbatim>\<open>rmap_client_pdf_getting.py\<close>.\<close>

definition decrypt_for_client ::
  "'m pgpy \<Rightarrow> WorkingIdentityManager \<Rightarrow> pyval \<Rightarrow> (exn + pyval) \<times> WorkingIdentityManager" where
  "decrypt_for_client lib self b64msg =
     (case b64decode b64msg of
        Inl e \<Rightarrow> (Inl e, self)
      | Inr armored \<Rightarrow>
     (case PGPMessage_from_blob lib armored of
        Inl e \<Rightarrow> (Inl e, self)
      | Inr pgpmsg \<Rightarrow>
          (case unlock lib (client_priv self) (passphrase self)
                  (\<lambda>unlocked_key.
                     (case PGPKey_decrypt lib unlocked_key pgpmsg of
                        Inl e \<Rightarrow> Inl e
                      | Inr decrypted \<Rightarrow> json_loads (PGPMessage_message lib decrypted),
                      unlocked_key)) of
             (r, key') \<Rightarrow> (r, self\<lparr>client_priv := key'\<rparr>))))"


section \<open>The world outside the scripts\<close>

text \<open>
  The three endpoints and the connectivity probe are the requests a script can issue;
  the link token is kept as the value interpolated into the URL. A run leaves a trace of
  events: the requests it issued and the files it opened for writing, in order. The
  world answers a request as a function of the trace up to and including it (an
  exception of the HTTP library, by its name, or a response), tells which files exist,
  supplies the random bits and tells whether writing a file fails.
\<close>

datatype request =
    GET_root
  | POST_rmap_initiate string
  | POST_rmap_get_link string
  | GET_get_version pyval

datatype event =
    Request request
  | FileWrite string string

record response =
  status_code :: int
  content_type :: "string option"
  content :: string

record env =
  http :: "event list \<Rightarrow> string + response"
  is_file :: "string \<Rightarrow> bool"
  randbits :: nat
  write_error :: "event list \<Rightarrow> string option"

text \<open>
  How a stage of a script ends: it goes on with a value, it makes the script return, or
  it raises. \<open>leave\<close> is what a stage that stops hands to its caller.
\<close>

datatype 'a flow =
    Continue 'a
  | Return bool
  | Raise exn

text \<open>\<^verbatim>\<open>r.json()\<close>\<close>

definition response_json :: "response \<Rightarrow> exn + pyval" where
  "response_json r = (case bytes_decode (content r) of Inl e \<Rightarrow> Inl e | Inr text \<Rightarrow> json_loads text)"

section \<open>\<^verbatim>\<open>fixed_rmap_client.py\<close>\<close>

definition test_server_connectivity :: "env \<Rightarrow> event list \<Rightarrow> bool \<times> event list" where
  "test_server_connectivity world trace =
     (let trace' = trace @ [Request GET_root]
      in case http world trace' of
           Inl e \<Rightarrow> (False, trace')
         | Inr r \<Rightarrow> (True, trace'))"

fun try_candidates :: "'m pgpy \<Rightarrow> env \<Rightarrow> string list \<Rightarrow> exn + (pgpkey \<times> string) option" where
  "try_candidates lib world [] = Inr None"
| "try_candidates lib world (candidate # rest) =
     (if is_file world candidate then
        (case PGPKey_from_file lib candidate of
           Inr server_pub_key \<Rightarrow> Inr (Some (server_pub_key, candidate))
         | Inl (Exc e) \<Rightarrow> try_candidates lib world rest
         | Inl (SystemExit m) \<Rightarrow> Inl (SystemExit m))
      else try_candidates lib world rest)"

definition find_and_load_server_key ::
  "'m pgpy \<Rightarrow> env \<Rightarrow> config \<Rightarrow> exn + (pgpkey \<times> string) option" where
  "find_and_load_server_key lib world cfg = try_candidates lib world (SERVER_PUB_KEY_CANDIDATES cfg)"

definition load_and_verify_client_key :: "'m pgpy \<Rightarrow> env \<Rightarrow> config \<Rightarrow> exn + pgpkey option" where
  "load_and_verify_client_key lib world cfg =
     (if \<not> is_file world (CLIENT_PRIV_KEY_PATH cfg) then Inr None
      else (case PGPKey_from_file lib (CLIENT_PRIV_KEY_PATH cfg) of
              Inr client_priv_key \<Rightarrow>
                if is_public client_priv_key then Inr None else Inr (Some client_priv_key)
            | Inl (Exc e) \<Rightarrow> Inr None
            | Inl (SystemExit m) \<Rightarrow> Inl (SystemExit m)))"

definition verify_different_keys :: "pgpkey \<Rightarrow> pgpkey \<Rightarrow> bool" where
  "verify_different_keys server_pub_key client_priv_key =
     (let server_fingerprint = fingerprint server_pub_key;
          client_fingerprint = fingerprint client_priv_key
      in if server_fingerprint = client_fingerprint then False else True)"

text \<open>
  The body of the \<^verbatim>\<open>try\<close> block of \<^verbatim>\<open>main\<close>, stage by stage: message 1 and the
  checks on its response (lines 178--199), decrypting the response and comparing the
  nonce (lines 201--210), message 2 and the link token (lines 212--231), the download
  (lines 233--246).
\<close>

definition message1 ::
  "'m pgpy \<Rightarrow> env \<Rightarrow> config \<Rightarrow> pgpkey \<Rightarrow> int \<Rightarrow> event list \<Rightarrow> pyval flow \<times> event list" where
  "message1 lib world cfg server_pub_key nonce_client trace =
     (case encrypt_to_server lib
             (PDict [(''identity'', PStr (IDENTITY cfg)), (''nonceClient'', PInt nonce_client)])
             server_pub_key of
        Inl e \<Rightarrow> (Raise e, trace)
      | Inr msg1_payload_b64 \<Rightarrow>
          (let trace' = trace @ [Request (POST_rmap_initiate msg1_payload_b64)]
           in case http world trace' of
                Inl e \<Rightarrow> (Raise (Exc e), trace')
              | Inr r1 \<Rightarrow>
                  if status_code r1 \<noteq> 200 then (Return False, trace')
                  else (case response_json r1 of
                          Inl e \<Rightarrow> (Raise e, trace')
                        | Inr resp1 \<Rightarrow>
                            (case py_contains ''payload'' resp1 of
                               Inl e \<Rightarrow> (Raise e, trace')
                             | Inr found \<Rightarrow>
                                 if \<not> found then (Return False, trace')
                                 else (Continue resp1, trace')))))"

definition response1 ::
  "'m pgpy \<Rightarrow> config \<Rightarrow> pyval \<Rightarrow> pgpkey \<Rightarrow> int \<Rightarrow> pyval flow \<times> pgpkey" where
  "response1 lib cfg resp1 client_priv_key nonce_client =
     (case py_getitem resp1 ''payload'' of
        Inl e \<Rightarrow> (Raise e, client_priv_key)
      | Inr payload \<Rightarrow>
          (case decrypt_from_server lib cfg payload client_priv_key of
             (Inl e, key') \<Rightarrow> (Raise e, key')
           | (Inr obj1, key') \<Rightarrow>
               (case py_get obj1 ''nonceClient'' of
                  Inl e \<Rightarrow> (Raise e, key')
                | Inr echoed \<Rightarrow>
                    if \<not> py_eq echoed (PInt nonce_client) then (Return False, key')
                    else (case py_getitem obj1 ''nonceServer'' of
                            Inl e \<Rightarrow> (Raise e, key')
                          | Inr nonce_server \<Rightarrow> (Continue nonce_server, key')))))"

definition message2 ::
  "'m pgpy \<Rightarrow> env \<Rightarrow> pgpkey \<Rightarrow> pyval \<Rightarrow> event list \<Rightarrow> pyval flow \<times> event list" where
  "message2 lib world server_pub_key nonce_server trace =
     (case encrypt_to_server lib (PDict [(''nonceServer'', nonce_server)]) server_pub_key of
        Inl e \<Rightarrow> (Raise e, trace)
      | Inr msg2_payload_b64 \<Rightarrow>
          (let trace' = trace @ [Request (POST_rmap_get_link msg2_payload_b64)]
           in case http world trace' of
                Inl e \<Rightarrow> (Raise (Exc e), trace')
              | Inr r2 \<Rightarrow>
                  if status_code r2 \<noteq> 200 then (Return False, trace')
                  else (case response_json r2 of
                          Inl e \<Rightarrow> (Raise e, trace')
                        | Inr resp2 \<Rightarrow>
                            (case py_contains ''result'' resp2 of
                               Inl e \<Rightarrow> (Raise e, trace')
                             | Inr found \<Rightarrow>
                                 if \<not> found then (Return False, trace')
                                 else (case py_getitem resp2 ''result'' of
                                         Inl e \<Rightarrow> (Raise e, trace')
                                       | Inr link_token \<Rightarrow> (Continue link_token, trace'))))))"

definition download_pdf ::
  "env \<Rightarrow> config \<Rightarrow> pyval \<Rightarrow> event list \<Rightarrow> (exn + bool) \<times> event list" where
  "download_pdf world cfg link_token trace =
     (let trace' = trace @ [Request (GET_get_version link_token)]
      in case http world trace' of
           Inl e \<Rightarrow> (Inl (Exc e), trace')
         | Inr pdf_resp \<Rightarrow>
             if status_code pdf_resp \<noteq> 200 \<or> content_type pdf_resp \<noteq> Some ''application/pdf''
             then (Inr False, trace')
             else (let fname = ''watermarked_'' @ IDENTITY cfg @ ''.pdf'';
                       trace'' = trace' @ [FileWrite fname (content pdf_resp)]
                   in case write_error world trace'' of
                        Some e \<Rightarrow> (Inl (Exc e), trace'')
                      | None \<Rightarrow> (Inr True, trace'')))"

definition leave :: "'a flow \<Rightarrow> exn + bool" where
  "leave f = (case f of Return b \<Rightarrow> Inr b | Raise e \<Rightarrow> Inl e | Continue x \<Rightarrow> Inr True)"

definition handshake ::
  "'m pgpy \<Rightarrow> env \<Rightarrow> config \<Rightarrow> pgpkey \<Rightarrow> pgpkey \<Rightarrow> event list \<Rightarrow> (exn + bool) \<times> event list" where
  "handshake lib world cfg server_pub_key client_priv_key trace =
     (let nonce_client = int (randbits world mod 2 ^ 64)
      in case message1 lib world cfg server_pub_key nonce_client trace of
           (Continue resp1, t1) \<Rightarrow>
             (case response1 lib cfg resp1 client_priv_key nonce_client of
                (Continue nonce_server, key') \<Rightarrow>
                  (case message2 lib world server_pub_key nonce_server t1 of
                     (Continue link_token, t2) \<Rightarrow> download_pdf world cfg link_token t2
                   | (stop, t2) \<Rightarrow> (leave stop, t2))
              | (stop, key') \<Rightarrow> (leave stop, t1))
         | (stop, t1) \<Rightarrow> (leave stop, t1))"

definition main :: "'m pgpy \<Rightarrow> env \<Rightarrow> config \<Rightarrow> (exn + bool) \<times> event list" where
  "main lib world cfg =
     (case test_server_connectivity world [] of
        (False, t0) \<Rightarrow> (Inr False, t0)
      | (True, t0) \<Rightarrow>
          (case find_and_load_server_key lib world cfg of
             Inl e \<Rightarrow> (Inl e, t0)
           | Inr None \<Rightarrow> (Inr False, t0)
           | Inr (Some (server_pub_key, server_key_path)) \<Rightarrow>
               (case load_and_verify_client_key lib world cfg of
                  Inl e \<Rightarrow> (Inl e, t0)
                | Inr None \<Rightarrow> (Inr False, t0)
                | Inr (Some client_priv_key) \<Rightarrow>
                    if \<not> verify_different_keys server_pub_key client_priv_key then (Inr False, t0)
                    else (case handshake lib world cfg server_pub_key client_priv_key t0 of
                            (Inr b, t) \<Rightarrow> (Inr b, t)
                          | (Inl (Exc e), t) \<Rightarrow> (Inr False, t)
                          | (Inl (SystemExit m), t) \<Rightarrow> (Inl (SystemExit m), t)))))"

section \<open>\<^verbatim>\<open>rmap_client_test.py\<close>\<close>

text \<open>
  The script has the constants of \<^verbatim>\<open>fixed_rmap_client.py\<close>, with one path
  \<^verbatim>\<open>SERVER_PUB_KEY_PATH\<close> in place of the list of candidates, and runs at module level:
  nothing catches what it raises. \<^verbatim>\<open>r.raise_for_status()\<close> raises for a status from 400
  to 599.
\<close>

definition raise_for_status :: "response \<Rightarrow> exn + unit" where
  "raise_for_status r =
     (if 400 \<le> status_code r \<and> status_code r < 600 then Inl (Exc ''HTTPError'') else Inr ())"

definition test_decrypt_from_server ::
  "'m pgpy \<Rightarrow> config \<Rightarrow> pgpkey \<Rightarrow> pyval \<Rightarrow> (exn + pyval) \<times> pgpkey" where
  "test_decrypt_from_server lib cfg client_priv_key payload_b64 =
     (case b64decode payload_b64 of
        Inl e \<Rightarrow> (Inl e, client_priv_key)
      | Inr armored \<Rightarrow>
     (case PGPMessage_from_blob lib armored of
        Inl e \<Rightarrow> (Inl e, client_priv_key)
      | Inr pgp_msg \<Rightarrow>
          if is_protected client_priv_key \<and> CLIENT_PRIV_PASSPHRASE cfg = None then
            (Inl (SystemExit ''Private key needs passphrase but none provided.''), client_priv_key)
          else if is_protected client_priv_key then
            (case unlock lib client_priv_key (CLIENT_PRIV_PASSPHRASE cfg)
                    (\<lambda>key. (PGPKey_decrypt lib key pgp_msg, key)) of
               (Inl e, key') \<Rightarrow> (Inl e, key')
             | (Inr dec, key') \<Rightarrow> (json_loads (PGPMessage_message lib dec), key'))
          else
            (case PGPKey_decrypt lib client_priv_key pgp_msg of
               Inl e \<Rightarrow> (Inl e, client_priv_key)
             | Inr dec \<Rightarrow> (json_loads (PGPMessage_message lib dec), client_priv_key))))"

text \<open>Lines 69--77, 79--84, 86--93 and 96--102 of the script.\<close>

definition test_message1 ::
  "'m pgpy \<Rightarrow> env \<Rightarrow> config \<Rightarrow> pgpkey \<Rightarrow> int \<Rightarrow> event list \<Rightarrow> (exn + pyval) \<times> event list" where
  "test_message1 lib world cfg server_pub_key nonce_client trace =
     (case test_encrypt_to_server lib server_pub_key
             (PDict [(''identity'', PStr (IDENTITY cfg)), (''nonceClient'', PInt nonce_client)]) of
        Inl e \<Rightarrow> (Inl e, trace)
      | Inr msg1_payload_b64 \<Rightarrow>
          (let trace' = trace @ [Request (POST_rmap_initiate msg1_payload_b64)]
           in case http world trace' of
                Inl e \<Rightarrow> (Inl (Exc e), trace')
              | Inr r1 \<Rightarrow>
                  (case raise_for_status r1 of
                     Inl e \<Rightarrow> (Inl e, trace')
                   | Inr u \<Rightarrow>
                  (case response_json r1 of
                     Inl e \<Rightarrow> (Inl e, trace')
                   | Inr resp1 \<Rightarrow>
                       (case py_contains ''payload'' resp1 of
                          Inl e \<Rightarrow> (Inl e, trace')
                        | Inr found \<Rightarrow>
                            if \<not> found
                            then (Inl (SystemExit ''Server returned error in message1''), trace')
                            else (Inr resp1, trace'))))))"

definition test_response1 ::
  "'m pgpy \<Rightarrow> config \<Rightarrow> pyval \<Rightarrow> pgpkey \<Rightarrow> int \<Rightarrow> (exn + pyval) \<times> pgpkey" where
  "test_response1 lib cfg resp1 client_priv_key nonce_client =
     (case py_getitem resp1 ''payload'' of
        Inl e \<Rightarrow> (Inl e, client_priv_key)
      | Inr payload \<Rightarrow>
          (case test_decrypt_from_server lib cfg client_priv_key payload of
             (Inl e, key') \<Rightarrow> (Inl e, key')
           | (Inr obj1, key') \<Rightarrow>
               (case py_get obj1 ''nonceClient'' of
                  Inl e \<Rightarrow> (Inl e, key')
                | Inr echoed \<Rightarrow>
                    if \<not> py_eq echoed (PInt nonce_client)
                    then (Inl (SystemExit ''nonceClient mismatch in server response.''), key')
                    else (py_getitem obj1 ''nonceServer'', key'))))"

definition test_message2 ::
  "'m pgpy \<Rightarrow> env \<Rightarrow> pgpkey \<Rightarrow> pyval \<Rightarrow> event list \<Rightarrow> (exn + pyval) \<times> event list" where
  "test_message2 lib world server_pub_key nonce_server trace =
     (case test_encrypt_to_server lib server_pub_key (PDict [(''nonceServer'', nonce_server)]) of
        Inl e \<Rightarrow> (Inl e, trace)
      | Inr msg2_payload_b64 \<Rightarrow>
          (let trace' = trace @ [Request (POST_rmap_get_link msg2_payload_b64)]
           in case http world trace' of
                Inl e \<Rightarrow> (Inl (Exc e), trace')
              | Inr r2 \<Rightarrow>
                  (case raise_for_status r2 of
                     Inl e \<Rightarrow> (Inl e, trace')
                   | Inr u \<Rightarrow>
                  (case response_json r2 of
                     Inl e \<Rightarrow> (Inl e, trace')
                   | Inr resp2 \<Rightarrow>
                       (case py_contains ''result'' resp2 of
                          Inl e \<Rightarrow> (Inl e, trace')
                        | Inr found \<Rightarrow>
                            if \<not> found
                            then (Inl (SystemExit ''Server returned error in message2''), trace')
                            else (py_getitem resp2 ''result'', trace'))))))"

definition test_download ::
  "env \<Rightarrow> config \<Rightarrow> pyval \<Rightarrow> event list \<Rightarrow> (exn + unit) \<times> event list" where
  "test_download world cfg link_token trace =
     (let trace' = trace @ [Request (GET_get_version link_token)]
      in case http world trace' of
           Inl e \<Rightarrow> (Inl (Exc e), trace')
         | Inr pdf_resp \<Rightarrow>
             if status_code pdf_resp \<noteq> 200 \<or> content_type pdf_resp \<noteq> Some ''application/pdf''
             then (Inl (SystemExit ''Failed to download version''), trace')
             else (let fname = ''watermarked_'' @ IDENTITY cfg @ ''.pdf'';
                       trace'' = trace' @ [FileWrite fname (content pdf_resp)]
                   in case write_error world trace'' of
                        Some e \<Rightarrow> (Inl (Exc e), trace'')
                      | None \<Rightarrow> (Inr (), trace'')))"

definition test_handshake ::
  "'m pgpy \<Rightarrow> env \<Rightarrow> config \<Rightarrow> pgpkey \<Rightarrow> pgpkey \<Rightarrow> event list
     \<Rightarrow> (exn + unit) \<times> event list" where
  "test_handshake lib world cfg server_pub_key client_priv_key trace =
     (let nonce_client = int (randbits world mod 2 ^ 64)
      in case test_message1 lib world cfg server_pub_key nonce_client trace of
           (Inl e, t1) \<Rightarrow> (Inl e, t1)
         | (Inr resp1, t1) \<Rightarrow>
             (case test_response1 lib cfg resp1 client_priv_key nonce_client of
                (Inl e, key') \<Rightarrow> (Inl e, t1)
              | (Inr nonce_server, key') \<Rightarrow>
                  (case test_message2 lib world server_pub_key nonce_server t1 of
                     (Inl e, t2) \<Rightarrow> (Inl e, t2)
                   | (Inr link_token, t2) \<Rightarrow> test_download world cfg link_token t2)))"

definition rmap_client_test ::
  "'m pgpy \<Rightarrow> env \<Rightarrow> config \<Rightarrow> string \<Rightarrow> (exn + unit) \<times> event list" where
  "rmap_client_test lib world cfg SERVER_PUB_KEY_PATH =
     (if \<not> is_file world SERVER_PUB_KEY_PATH \<or> \<not> is_file world (CLIENT_PRIV_KEY_PATH cfg)
      then (Inl (SystemExit ''2''), [])
      else (case PGPKey_from_file lib SERVER_PUB_KEY_PATH of
              Inl e \<Rightarrow> (Inl e, [])
            | Inr server_pub_key \<Rightarrow>
                (case PGPKey_from_file lib (CLIENT_PRIV_KEY_PATH cfg) of
                   Inl e \<Rightarrow> (Inl e, [])
                 | Inr client_priv_key \<Rightarrow>
                     if is_public client_priv_key
                     then (Inl (SystemExit ''Provided client key file is only a PUBLIC key''), [])
                     else test_handshake lib world cfg server_pub_key client_priv_key [])))"

section \<open>\<^verbatim>\<open>rmap_client_pdf_getting.py\<close>\<close>

text \<open>
  \<^verbatim>\<open>urllib.request.urlopen\<close> raises \<^verbatim>\<open>HTTPError\<close> unless the final status is from
  200 to 299. Every block of \<^verbatim>\<open>main\<close> is a \<^verbatim>\<open>try\<close> whose handler for
  \<^verbatim>\<open>Exception\<close> prints and calls \<^verbatim>\<open>sys.exit(1)\<close>. The constants are those of
  \<^verbatim>\<open>rmap_client_test.py\<close>.
\<close>

definition urlopen :: "env \<Rightarrow> event list \<Rightarrow> exn + response" where
  "urlopen world trace =
     (case http world trace of
        Inl e \<Rightarrow> Inl (Exc e)
      | Inr resp \<Rightarrow>
          if 200 \<le> status_code resp \<and> status_code resp < 300 then Inr resp
          else Inl (Exc ''HTTPError''))"

definition sys_exit_on_exception :: "exn + 'a \<Rightarrow> exn + 'a" where
  "sys_exit_on_exception r = (case r of Inl (Exc e) \<Rightarrow> Inl (SystemExit ''1'') | _ \<Rightarrow> r)"

text \<open>Step 1 (lines 83--100), step 2 (108--118), step 3 (125--137), step 4 (145--153).\<close>

definition pdf_getting_step1 ::
  "'m pgpy \<Rightarrow> env \<Rightarrow> config \<Rightarrow> WorkingIdentityManager \<Rightarrow> int \<Rightarrow> event list
     \<Rightarrow> (exn + pyval) \<times> event list" where
  "pdf_getting_step1 lib world cfg idm nonce_client trace =
     (case encrypt_for_server lib idm
             (PDict [(''identity'', PStr (IDENTITY cfg)), (''nonceClient'', PInt nonce_client)]) of
        Inl e \<Rightarrow> (Inl e, trace)
      | Inr payload1_b64 \<Rightarrow>
          (let trace' = trace @ [Request (POST_rmap_initiate payload1_b64)]
           in case urlopen world trace' of
                Inl e \<Rightarrow> (Inl e, trace')
              | Inr resp \<Rightarrow>
                  (case response_json resp of
                     Inl e \<Rightarrow> (Inl e, trace')
                   | Inr body1 \<Rightarrow> (py_getitem body1 ''payload'', trace'))))"

definition pdf_getting_step2 ::
  "'m pgpy \<Rightarrow> WorkingIdentityManager \<Rightarrow> pyval \<Rightarrow> int \<Rightarrow> (exn + int) \<times> WorkingIdentityManager" where
  "pdf_getting_step2 lib idm payload2_b64 nonce_client =
     (case decrypt_for_client lib idm payload2_b64 of
        (Inl e, idm') \<Rightarrow> (Inl e, idm')
      | (Inr obj, idm') \<Rightarrow>
          (case py_getitem obj ''nonceClient'' of
             Inl e \<Rightarrow> (Inl e, idm')
           | Inr echoed \<Rightarrow>
               (case py_int echoed of
                  Inl e \<Rightarrow> (Inl e, idm')
                | Inr received_nonce \<Rightarrow>
                    if received_nonce \<noteq> nonce_client then (Inl (Exc ''NonceClient mismatch!''), idm')
                    else (case py_getitem obj ''nonceServer'' of
                            Inl e \<Rightarrow> (Inl e, idm')
                          | Inr v \<Rightarrow> (py_int v, idm')))))"

definition pdf_getting_step3 ::
  "'m pgpy \<Rightarrow> env \<Rightarrow> WorkingIdentityManager \<Rightarrow> int \<Rightarrow> event list \<Rightarrow> (exn + pyval) \<times> event list" where
  "pdf_getting_step3 lib world idm nonce_server trace =
     (case encrypt_for_server lib idm (PDict [(''nonceServer'', PInt nonce_server)]) of
        Inl e \<Rightarrow> (Inl e, trace)
      | Inr payload3_b64 \<Rightarrow>
          (let trace' = trace @ [Request (POST_rmap_get_link payload3_b64)]
           in case urlopen world trace' of
                Inl e \<Rightarrow> (Inl e, trace')
              | Inr resp \<Rightarrow>
                  (case response_json resp of
                     Inl e \<Rightarrow> (Inl e, trace')
                   | Inr body2 \<Rightarrow> (py_getitem body2 ''result'', trace'))))"

definition pdf_getting_step4 ::
  "env \<Rightarrow> config \<Rightarrow> pyval \<Rightarrow> event list \<Rightarrow> (exn + unit) \<times> event list" where
  "pdf_getting_step4 world cfg link trace =
     (let trace' = trace @ [Request (GET_get_version link)]
      in case urlopen world trace' of
           Inl e \<Rightarrow> (Inl e, trace')
         | Inr resp \<Rightarrow>
             (let pdf_data = content resp;
                  out_fn = IDENTITY cfg @ ''_watermarked.pdf'';
                  trace'' = trace' @ [FileWrite out_fn pdf_data]
              in case write_error world trace'' of
                   Some e \<Rightarrow> (Inl (Exc e), trace'')
                 | None \<Rightarrow> (Inr (), trace'')))"

definition pdf_getting_protocol ::
  "'m pgpy \<Rightarrow> env \<Rightarrow> config \<Rightarrow> WorkingIdentityManager \<Rightarrow> (exn + unit) \<times> event list" where
  "pdf_getting_protocol lib world cfg idm =
     (let nonce_client = int (randbits world mod 2 ^ 64)
      in case pdf_getting_step1 lib world cfg idm nonce_client [] of
           (Inl e, t1) \<Rightarrow> (sys_exit_on_exception (Inl e), t1)
         | (Inr payload2_b64, t1) \<Rightarrow>
             (case pdf_getting_step2 lib idm payload2_b64 nonce_client of
                (Inl e, idm') \<Rightarrow> (sys_exit_on_exception (Inl e), t1)
              | (Inr nonce_server, idm') \<Rightarrow>
                  (case pdf_getting_step3 lib world idm' nonce_server t1 of
                     (Inl e, t2) \<Rightarrow> (sys_exit_on_exception (Inl e), t2)
                   | (Inr link, t2) \<Rightarrow>
                       (case pdf_getting_step4 world cfg link t2 of
                          (r, t3) \<Rightarrow> (sys_exit_on_exception r, t3)))))"

definition pdf_getting_main ::
  "'m pgpy \<Rightarrow> env \<Rightarrow> config \<Rightarrow> string \<Rightarrow> (exn + unit) \<times> event list" where
  "pdf_getting_main lib world cfg SERVER_PUB_KEY_PATH =
     (case sys_exit_on_exception (PGPKey_from_file lib (CLIENT_PRIV_KEY_PATH cfg)) of
        Inl e \<Rightarrow> (Inl e, [])
      | Inr client_priv' \<Rightarrow>
     (case sys_exit_on_exception (PGPKey_from_file lib SERVER_PUB_KEY_PATH) of
        Inl e \<Rightarrow> (Inl e, [])
      | Inr server_pub' \<Rightarrow>
     (case unlock lib client_priv' (CLIENT_PRIV_PASSPHRASE cfg)
             (\<lambda>unlocked_key. (Inr (), unlocked_key)) of
        (Inl e, key') \<Rightarrow> (sys_exit_on_exception (Inl e), [])
      | (Inr u, key') \<Rightarrow>
          pdf_getting_protocol lib world cfg
            \<lparr>client_priv = key', server_pub = server_pub',
             passphrase = CLIENT_PRIV_PASSPHRASE cfg\<rparr>)))"

section \<open>\<^verbatim>\<open>test_group_rmap.py\<close>\<close>


section \<open>An example library, configuration and peer\<close>

text \<open>
  A library whose encryption is the identity and whose protected key opens with one
  passphrase, the configuration of the scripts, and a peer that answers each request
  with a fixed response. The theorems below are instantiated on them.
\<close>

definition example_server_key :: pgpkey where
  "example_server_key = \<lparr>fingerprint = ''AAAA'', is_public = True, is_protected = False, unlocked = False\<rparr>"

definition example_client_key :: pgpkey where
  "example_client_key = \<lparr>fingerprint = ''BBBB'', is_public = False, is_protected = True, unlocked = False\<rparr>"

definition example_pgpy :: "string pgpy" where
  "example_pgpy =
     \<lparr>PGPKey_from_file = (\<lambda>path. if path = ''pub.asc'' then Inr example_server_key
                                 else if path = ''priv.asc'' then Inr example_client_key
                                 else Inl (Exc ''FileNotFoundError'')),
      PGPMessage_new = (\<lambda>text. text),
      PGPKey_encrypt = (\<lambda>key msg. Inr msg),
      PGPMessage_str = (\<lambda>msg. msg),
      PGPMessage_from_blob = (\<lambda>blob. Inr blob),
      PGPKey_decrypt = (\<lambda>key msg. if is_protected key \<and> \<not> unlocked key
                                     then Inl (Exc ''PGPError'') else Inr msg),
      PGPMessage_message = (\<lambda>msg. msg),
      PGPKey_unprotect = (\<lambda>key pw. pw = Some ''open sesame'')\<rparr>"

definition example_config :: config where
  "example_config =
     \<lparr>IDENTITY = ''Group_04'',
      SERVER_PUB_KEY_CANDIDATES = [''pub.asc'', ''keys/public.asc'', ''keys/public.pgp'',
                                   ''tatou/keys/server/pub.asc''],
      CLIENT_PRIV_KEY_PATH = ''priv.asc'',
      CLIENT_PRIV_PASSPHRASE = Some ''open sesame''\<rparr>"

definition example_peer :: "string \<Rightarrow> string \<Rightarrow> response \<Rightarrow> event list \<Rightarrow> string + response" where
  "example_peer body1 body2 pdf trace =
     (case rev trace of
        [] \<Rightarrow> Inl ''ConnectionError''
      | Request GET_root # earlier \<Rightarrow>
          Inr \<lparr>status_code = 200, content_type = Some ''text/html'', content = ''ok''\<rparr>
      | Request (POST_rmap_initiate p) # earlier \<Rightarrow>
          Inr \<lparr>status_code = 200, content_type = Some ''application/json'', content = body1\<rparr>
      | Request (POST_rmap_get_link p) # earlier \<Rightarrow>
          Inr \<lparr>status_code = 200, content_type = Some ''application/json'', content = body2\<rparr>
      | Request (GET_get_version link) # earlier \<Rightarrow> Inr pdf
      | FileWrite name data # earlier \<Rightarrow> Inl ''ConnectionError'')"

definition example_world :: "nat \<Rightarrow> string \<Rightarrow> string \<Rightarrow> response \<Rightarrow> env" where
  "example_world nonce body1 body2 pdf =
     \<lparr>http = example_peer body1 body2 pdf,
      is_file = (\<lambda>path. path = ''pub.asc'' \<or> path = ''priv.asc''),
      randbits = nonce,
      write_error = (\<lambda>trace. None)\<rparr>"

text \<open>
  The happy path of the protocol: the nonce drawn is 123456789, the first answer carries
  \<^verbatim>\<open>{"nonceClient":123456789,"nonceServer":987654321}\<close>, the second answer is
  \<^verbatim>\<open>{"result":"abc123"}\<close>, and the download is a PDF.
\<close>

definition happy_world :: env where
  \<open>happy_world = example_world 123456789
     ''{"payload":"eyJub25jZUNsaWVudCI6MTIzNDU2Nzg5LCJub25jZVNlcnZlciI6OTg3NjU0MzIxfQ=="}''
     ''{"result":"abc123"}''
     \<lparr>status_code = 200, content_type = Some ''application/pdf'', content = ''%PDF''\<rparr>\<close>



text \<open>
  For the statements about the canonical text: the printable ASCII characters, the number
  of spaces of a string, and the number of spaces in the keys and strings of a value.
\<close>

definition printable :: "char \<Rightarrow> bool" where
  "printable c = (0x20 \<le> (of_char c :: nat) \<and> (of_char c :: nat) \<le> 0x7E)"

definition spaces :: "string \<Rightarrow> nat" where
  "spaces s = length (filter (\<lambda>c. c = CHR '' '') s)"

fun spaces_in :: "pyval \<Rightarrow> nat" where
  "spaces_in (PStr s) = spaces s"
| "spaces_in (PList xs) = sum_list (map spaces_in xs)"
| "spaces_in (PTuple xs) = sum_list (map spaces_in xs)"
| "spaces_in (PDict d) = sum_list (map (\<lambda>kv. spaces (fst kv) + spaces_in (snd kv)) d)"
| "spaces_in _ = 0"

section \<open>Canonical serialisation is deterministic\<close>

lemma nat_repr_small: "n < 10 \<Longrightarrow> nat_repr n = [digit_char n]"
  by (subst nat_repr.simps) simp

lemma nat_repr_big:
  "\<not> n < 10 \<Longrightarrow> nat_repr n = nat_repr (n div 10) @ [digit_char (n mod 10)]"
  by (subst nat_repr.simps) simp

lemma insort_key_rendered:
  "insort_key fst (k, f v) (map (\<lambda>kv. (fst kv, f (snd kv))) ys)
   = map (\<lambda>kv. (fst kv, f (snd kv))) (insort_key fst (k, v) ys)"
  by (induction ys) auto

lemma sort_key_rendered:
  "sort_key fst (map (\<lambda>kv. (fst kv, f (snd kv))) xs)
   = map (\<lambda>kv. (fst kv, f (snd kv))) (sort_key fst xs)"
proof (induction xs)
  case Nil
  then show ?case by simp
next
  case (Cons a xs)
  obtain k v where a: "a = (k, v)" by (cases a)
  show ?case using Cons by (simp add: a insort_key_rendered)
qed

lemma json_dumps_dict_rendered:
  "json_dumps (PDict d)
   = ''{'' @ join '','' (map (\<lambda>kr. encode_basestring_ascii (fst kr) @ '':'' @ snd kr)
                            (sort_key fst (rendered d))) @ ''}''"
  by (simp add: rendered_def sort_key_rendered comp_def)

lemma sort_key_unique:
  fixes xs ys :: "(string \<times> 'b) list"
  assumes "distinct (map fst xs)" and "set xs = set ys" and "distinct (map fst ys)"
  shows "sort_key fst xs = sort_key fst ys"
proof (rule map_sorted_distinct_set_unique [where f = fst])
  have "inj_on fst (set xs)" using assms(1) by (simp add: distinct_map)
  then show "inj_on fst (set (sort_key fst xs) \<union> set (sort_key fst ys))"
    using assms(2) by simp
  show "sorted (map fst (sort_key fst xs))" by simp
  show "sorted (map fst (sort_key fst ys))" by simp
  show "distinct (map fst (sort_key fst xs))" using assms(1) by (simp add: distinct_map)
  show "distinct (map fst (sort_key fst ys))" using assms(3) by (simp add: distinct_map)
  show "set (sort_key fst xs) = set (sort_key fst ys)" using assms(2) by simp
qed

lemma rendered_set_eq:
  assumes d1: "distinct (map fst d1)" and d2: "distinct (map fst d2)"
    and len: "length d1 = length d2"
    and rel: "\<And>k v. (k, v) \<in> set d1 \<Longrightarrow> \<exists>v'. map_of d2 k = Some v' \<and> json_dumps v = json_dumps v'"
  shows "set (rendered d1) = set (rendered d2)"
proof -
  have sub: "fst ` set d1 \<subseteq> fst ` set d2"
  proof
    fix k assume "k \<in> fst ` set d1"
    then obtain v where "(k, v) \<in> set d1" by auto
    then obtain v' where "map_of d2 k = Some v'" using rel by blast
    then have "(k, v') \<in> set d2" by (rule map_of_SomeD)
    then show "k \<in> fst ` set d2" by force
  qed
  have "card (fst ` set d1) = length d1" using d1 by (metis distinct_card length_map set_map)
  moreover have "card (fst ` set d2) = length d2" using d2 by (metis distinct_card length_map set_map)
  ultimately have keys: "fst ` set d1 = fst ` set d2"
    using sub len by (simp add: card_subset_eq)
  show ?thesis
  proof (rule set_eqI)
    fix kr :: "string \<times> string"
    obtain k r where kr: "kr = (k, r)" by (cases kr)
    show "kr \<in> set (rendered d1) \<longleftrightarrow> kr \<in> set (rendered d2)"
    proof
      assume "kr \<in> set (rendered d1)"
      then obtain v where v: "(k, v) \<in> set d1" "r = json_dumps v"
        by (auto simp: rendered_def kr)
      then obtain v' where v': "map_of d2 k = Some v'" "json_dumps v = json_dumps v'"
        using rel by blast
      then have "(k, v') \<in> set d2" by (simp add: map_of_SomeD)
      then show "kr \<in> set (rendered d2)" using v v' by (force simp: rendered_def kr)
    next
      assume "kr \<in> set (rendered d2)"
      then obtain v' where v': "(k, v') \<in> set d2" "r = json_dumps v'"
        by (auto simp: rendered_def kr)
      then have "k \<in> fst ` set d1" using keys by force
      then obtain v where v: "(k, v) \<in> set d1" by auto
      then obtain v'' where v'': "map_of d2 k = Some v''" "json_dumps v = json_dumps v''"
        using rel by blast
      have "map_of d2 k = Some v'" using d2 v'(1) by simp
      then have "v'' = v'" using v''(1) by simp
      then show "kr \<in> set (rendered d1)" using v v'' v'(2) by (force simp: rendered_def kr)
    qed
  qed
qed

lemma json_dumps_dict_eq:
  assumes d1: "distinct (map fst d1)" and d2: "distinct (map fst d2)"
    and len: "length d1 = length d2"
    and rel: "\<And>k v. (k, v) \<in> set d1 \<Longrightarrow> \<exists>v'. map_of d2 k = Some v' \<and> json_dumps v = json_dumps v'"
  shows "json_dumps (PDict d1) = json_dumps (PDict d2)"
proof -
  have "set (rendered d1) = set (rendered d2)" using assms by (rule rendered_set_eq)
  moreover have "distinct (map fst (rendered d1))" using d1 by (simp add: rendered_def comp_def)
  moreover have "distinct (map fst (rendered d2))" using d2 by (simp add: rendered_def comp_def)
  ultimately have "sort_key fst (rendered d1) = sort_key fst (rendered d2)"
    by (intro sort_key_unique)
  then show ?thesis by (simp only: json_dumps_dict_rendered)
qed


lemma same_items_iff:
  "same_items d1 d2
   \<longleftrightarrow> (\<forall>(k, v) \<in> set d1. \<exists>v'. map_of d2 k = Some v' \<and> same_mapping v v')"
  by (induction d1) (auto split: option.splits)

lemma same_list_dumps:
  assumes step: "\<And>x y. x \<in> set xs \<Longrightarrow> wf_py x \<Longrightarrow> wf_py y \<Longrightarrow> same_mapping x y
             \<Longrightarrow> json_dumps x = json_dumps y"
    and "list_all wf_py xs" and "list_all wf_py ys" and "same_list xs ys"
  shows "map json_dumps xs = map json_dumps ys"
  using assms
proof (induction xs arbitrary: ys)
  case Nil
  from Nil.prems(4) show ?case by (cases ys) simp_all
next
  case (Cons x xs)
  from Cons.prems(4) obtain y ys' where ys: "ys = y # ys'" by (cases ys) simp_all
  have wfx: "wf_py x" "list_all wf_py xs" using Cons.prems(2) by simp_all
  have wfy: "wf_py y" "list_all wf_py ys'" using Cons.prems(3) ys by simp_all
  have sm: "same_mapping x y" "same_list xs ys'" using Cons.prems(4) ys by simp_all
  have hd: "json_dumps x = json_dumps y"
    by (rule Cons.prems(1)) (simp_all add: wfx wfy sm)
  have tl: "map json_dumps xs = map json_dumps ys'"
  proof (rule Cons.IH)
    fix a b assume "a \<in> set xs" "wf_py a" "wf_py b" "same_mapping a b"
    then show "json_dumps a = json_dumps b" by (intro Cons.prems(1)) simp_all
  qed (rule wfx wfy sm)+
  show ?case unfolding ys using hd tl by (simp only: list.map)
qed

lemma same_mapping_dumps:
  "wf_py a \<Longrightarrow> wf_py b \<Longrightarrow> same_mapping a b \<Longrightarrow> json_dumps a = json_dumps b"
proof (induction a arbitrary: b)
  case (PList xs)
  from PList.prems(3) obtain ys where b: "b = PList ys" by (cases b) simp_all
  have "map json_dumps xs = map json_dumps ys"
  proof (rule same_list_dumps)
    fix x y assume "x \<in> set xs" "wf_py x" "wf_py y" "same_mapping x y"
    then show "json_dumps x = json_dumps y" by (rule PList.IH)
  qed (use PList.prems b in simp_all)
  then show ?case by (simp add: b)
next
  case (PTuple xs)
  from PTuple.prems(3) obtain ys where b: "b = PTuple ys" by (cases b) simp_all
  have "map json_dumps xs = map json_dumps ys"
  proof (rule same_list_dumps)
    fix x y assume "x \<in> set xs" "wf_py x" "wf_py y" "same_mapping x y"
    then show "json_dumps x = json_dumps y" by (rule PTuple.IH)
  qed (use PTuple.prems b in simp_all)
  then show ?case by (simp add: b)
next
  case (PDict d1)
  from PDict.prems(3) obtain d2 where b: "b = PDict d2" by (cases b) simp_all
  have wf1: "distinct (map fst d1)" "list_all (\<lambda>kv. wf_py (snd kv)) d1"
    and wf2: "distinct (map fst d2)" "list_all (\<lambda>kv. wf_py (snd kv)) d2"
    and len: "length d1 = length d2" and items: "same_items d1 d2"
    using PDict.prems b by simp_all
  have rel: "\<exists>v'. map_of d2 k = Some v' \<and> json_dumps v = json_dumps v'"
    if kv: "(k, v) \<in> set d1" for k v
  proof -
    obtain v' where v': "map_of d2 k = Some v'" "same_mapping v v'"
      using items kv by (auto simp: same_items_iff)
    have "(k, v') \<in> set d2" using v'(1) by (rule map_of_SomeD)
    then have "wf_py v'" using wf2(2) by (auto simp: list_all_iff)
    moreover have "wf_py v" using wf1(2) kv by (auto simp: list_all_iff)
    ultimately have "json_dumps v = json_dumps v'"
      using kv v'(2) by (intro PDict.IH [of "(k, v)" v v']) simp_all
    then show ?thesis using v'(1) by blast
  qed
  have "json_dumps (PDict d1) = json_dumps (PDict d2)"
    using wf1(1) wf2(1) len rel by (rule json_dumps_dict_eq)
  then show ?case by (simp only: b)
next
  case PNone
  from PNone.prems(3) show ?case by (cases b) simp_all
next
  case (PBool x)
  from PBool.prems(3) show ?case by (cases b) simp_all
next
  case (PInt x)
  from PInt.prems(3) show ?case by (cases b) simp_all
next
  case (PStr x)
  from PStr.prems(3) show ?case by (cases b) simp_all
qed

section \<open>The four seal operations are one function\<close>

text \<open>
  C9. The seal operations of the four scripts compute the same function: for every
  message and every recipient key, \<^verbatim>\<open>encrypt_to_server\<close> (in
  \<^verbatim>\<open>fixed_rmap_client.py\<close> and in \<^verbatim>\<open>rmap_client_test.py\<close>),
  \<^verbatim>\<open>WorkingIdentityManager.encrypt_for_server\<close> and
  \<^verbatim>\<open>SimpleRMAPClient.encrypt_to_target\<close> serialise to the same canonical plaintext
  and run it through the same encrypt, armor, base64 pipeline.
\<close>

theorem seal_operations_agree:
  "test_encrypt_to_server lib pub obj = encrypt_to_server lib obj pub
   \<and> encrypt_for_server lib \<lparr>client_priv = priv, server_pub = pub, passphrase = pw\<rparr> obj
       = encrypt_to_server lib obj pub
   \<and> encrypt_to_target lib \<lparr>your_priv_key = priv, target_pub_key = pub, client_passphrase = pw\<rparr> obj
       = encrypt_to_server lib obj pub"
  by (simp add: test_encrypt_to_server_def encrypt_for_server_def encrypt_to_target_def
      encrypt_to_server_def Let_def split: sum.split)

section \<open>Evaluating the example\<close>

lemmas dumps_eval = encode_basestring_ascii_def escape_char_def int_repr_def nat_repr_small
  nat_repr_big digit_char_def hex_digit_def

lemmas b64_eval = b64_char_def b64_alphabet_def

lemmas b64dec_eval = b64_index_def emit_def char_of_def bit_Suc_0_iff

lemmas loads_eval = json_loads_def skip_ws_def is_ws_def scan_number_def scan_integer_def
  is_digit_def has_frac_def has_exp_def nat_of_digits_def digit_val_def dict_of_pairs_def
  BACKSLASH_def decode_uXXXX_def hex_val_def JSONDecodeError_def

lemmas example_eval = example_pgpy_def example_config_def example_server_key_def
  example_client_key_def

lemma example_seal:
  "encrypt_to_server example_pgpy obj example_server_key
     = bytes_decode (b64encode (str_encode (json_dumps obj)))"
  by (simp add: encrypt_to_server_def example_pgpy_def)

lemma example_open:
  "decrypt_from_server example_pgpy example_config (PStr s) example_client_key =
     (case b64decode (PStr s) of
        Inl e \<Rightarrow> (Inl e, example_client_key)
      | Inr text \<Rightarrow> (json_loads text, example_client_key))"
  by (simp add: decrypt_from_server_def unlock_def example_eval split: sum.split)

lemma seal_message1:
  "encrypt_to_server example_pgpy
     (PDict [(''identity'', PStr ''Group_04''), (''nonceClient'', PInt 123456789)]) example_server_key
   = Inr ''eyJpZGVudGl0eSI6Ikdyb3VwXzA0Iiwibm9uY2VDbGllbnQiOjEyMzQ1Njc4OX0=''"
  by (simp add: example_seal str_encode_def utf8_char_def dumps_eval b64_eval)

lemma seal_message2:
  "encrypt_to_server example_pgpy (PDict [(''nonceServer'', PInt 987654321)]) example_server_key
   = Inr ''eyJub25jZVNlcnZlciI6OTg3NjU0MzIxfQ==''"
  by (simp add: example_seal str_encode_def utf8_char_def dumps_eval b64_eval)

lemma open_response1:
  "decrypt_from_server example_pgpy example_config
     (PStr ''eyJub25jZUNsaWVudCI6MTIzNDU2Nzg5LCJub25jZVNlcnZlciI6OTg3NjU0MzIxfQ=='') example_client_key
   = (Inr (PDict [(''nonceClient'', PInt 123456789), (''nonceServer'', PInt 987654321)]),
      example_client_key)"
  by (simp add: example_open b64dec_eval loads_eval)

section \<open>Equal fingerprints\<close>

text \<open>
  C10. In \<^verbatim>\<open>fixed_rmap_client.py\<close>, when the server public key and the client private
  key that were loaded have the same fingerprint, \<^verbatim>\<open>main\<close> returns \<^verbatim>\<open>False\<close>
  before the handshake: the only request of the run is the connectivity probe, so no
  handshake message is sent.
\<close>

theorem same_fingerprint_aborts:
  assumes "find_and_load_server_key lib world cfg = Inr (Some (server_pub_key, server_key_path))"
    and "load_and_verify_client_key lib world cfg = Inr (Some client_priv_key)"
    and "fingerprint server_pub_key = fingerprint client_priv_key"
  shows "main lib world cfg = (Inr False, [Request GET_root])"
  using assms
  by (simp add: main_def test_server_connectivity_def verify_different_keys_def Let_def
      split: sum.split)

theorem same_fingerprint_aborts_witness:
  "find_and_load_server_key example_pgpy happy_world
       (example_config\<lparr>SERVER_PUB_KEY_CANDIDATES := [''priv.asc'']\<rparr>)
     = Inr (Some (example_client_key, ''priv.asc''))
   \<and> load_and_verify_client_key example_pgpy happy_world
       (example_config\<lparr>SERVER_PUB_KEY_CANDIDATES := [''priv.asc'']\<rparr>)
     = Inr (Some example_client_key)
   \<and> main example_pgpy happy_world (example_config\<lparr>SERVER_PUB_KEY_CANDIDATES := [''priv.asc'']\<rparr>)
     = (Inr False, [Request GET_root])"
  using same_fingerprint_aborts [of example_pgpy happy_world
      "example_config\<lparr>SERVER_PUB_KEY_CANDIDATES := [''priv.asc'']\<rparr>"
      example_client_key "''priv.asc''" example_client_key]
  by (simp add: find_and_load_server_key_def load_and_verify_client_key_def example_eval
      happy_world_def example_world_def)

section \<open>The key is locked again\<close>

text \<open>
  C8. A key that is locked when the decrypt operation is called is locked when the call
  is over, whatever the call did: returned a value or raised, at any point. The key
  object after the call is the key object before it, for \<^verbatim>\<open>decrypt_from_server\<close> and
  for \<^verbatim>\<open>WorkingIdentityManager.decrypt_for_client\<close>.
\<close>

theorem decrypt_relocks:
  assumes "\<not> unlocked key"
  shows "snd (decrypt_from_server lib cfg payload key) = key
    \<and> snd (decrypt_for_client lib \<lparr>client_priv = key, server_pub = spk, passphrase = pw\<rparr> payload)
        = \<lparr>client_priv = key, server_pub = spk, passphrase = pw\<rparr>"
  using assms
  by (auto simp: decrypt_from_server_def decrypt_for_client_def unlock_def
      split: sum.splits prod.splits if_splits)

theorem decrypt_relocks_witness:
  "\<not> unlocked example_client_key
   \<and> decrypt_from_server example_pgpy example_config
       (PStr ''eyJub25jZUNsaWVudCI6MTIzNDU2Nzg5LCJub25jZVNlcnZlciI6OTg3NjU0MzIxfQ=='')
       example_client_key
     = (Inr (PDict [(''nonceClient'', PInt 123456789), (''nonceServer'', PInt 987654321)]),
        example_client_key)
   \<and> snd (decrypt_for_client example_pgpy
         \<lparr>client_priv = example_client_key, server_pub = example_server_key,
          passphrase = Some ''open sesame''\<rparr>
         (PStr ''eyJub25jZUNsaWVudCI6MTIzNDU2Nzg5LCJub25jZVNlcnZlciI6OTg3NjU0MzIxfQ==''))
     = \<lparr>client_priv = example_client_key, server_pub = example_server_key,
        passphrase = Some ''open sesame''\<rparr>"
  using decrypt_relocks [of example_client_key example_pgpy example_config
      "PStr ''eyJub25jZUNsaWVudCI6MTIzNDU2Nzg5LCJub25jZVNlcnZlciI6OTg3NjU0MzIxfQ==''"
      example_server_key "Some ''open sesame''"]
  by (simp add: open_response1) (simp add: example_client_key_def)

section \<open>The first round trip\<close>

lemma getitem_contains: "py_getitem obj k = Inr v \<Longrightarrow> py_contains k obj = Inr True"
  by (cases obj) (auto split: option.splits)

lemma test_seal_eq: "test_encrypt_to_server lib key obj = encrypt_to_server lib obj key"
  by (simp add: test_encrypt_to_server_def encrypt_to_server_def)

lemma test_open_eq:
  "test_decrypt_from_server lib cfg key payload = decrypt_from_server lib cfg payload key"
  by (auto simp: test_decrypt_from_server_def decrypt_from_server_def
      split: sum.split prod.split)

lemma message1_answered:
  assumes "encrypt_to_server lib
             (PDict [(''identity'', PStr (IDENTITY cfg)), (''nonceClient'', PInt nonce)]) spk = Inr env1"
    and "http world (t0 @ [Request (POST_rmap_initiate env1)]) = Inr r1"
    and "status_code r1 = 200"
    and "response_json r1 = Inr resp1"
    and "py_getitem resp1 ''payload'' = Inr payload"
  shows "message1 lib world cfg spk nonce t0 = (Continue resp1, t0 @ [Request (POST_rmap_initiate env1)])"
    and "test_message1 lib world cfg spk nonce t0 = (Inr resp1, t0 @ [Request (POST_rmap_initiate env1)])"
  using assms getitem_contains [OF assms(5)]
  by (simp_all add: message1_def test_message1_def test_seal_eq raise_for_status_def Let_def)



lemma example_identity: "IDENTITY example_config = ''Group_04''"
  by (simp add: example_config_def)

lemma example_randbits: "randbits (example_world n b1 b2 pdf) = n"
  by (simp add: example_world_def)








section \<open>The second round trip\<close>

text \<open>
  C5. On the happy path (the first answer echoes the generated nonce and holds a
  \<^verbatim>\<open>nonceServer\<close>, the second answer holds a \<^verbatim>\<open>result\<close>) the second request is the
  POST of the mapping with the one key \<^verbatim>\<open>nonceServer\<close> and the value received,
  sealed to the server's key, and the session goes on to the download with the
  \<^verbatim>\<open>result\<close> of the second answer as link token. It holds for
  \<^verbatim>\<open>fixed_rmap_client.py\<close> and for \<^verbatim>\<open>rmap_client_test.py\<close>.
\<close>

theorem happy_path:
  assumes "encrypt_to_server lib
             (PDict [(''identity'', PStr (IDENTITY cfg)),
                     (''nonceClient'', PInt (int (randbits world mod 2 ^ 64)))]) spk = Inr env1"
    and "http world (t0 @ [Request (POST_rmap_initiate env1)]) = Inr r1"
    and "status_code r1 = 200"
    and "response_json r1 = Inr resp1"
    and "py_getitem resp1 ''payload'' = Inr payload"
    and "decrypt_from_server lib cfg payload cpk = (Inr obj1, key')"
    and "py_get obj1 ''nonceClient'' = Inr echoed"
    and "py_eq echoed (PInt (int (randbits world mod 2 ^ 64)))"
    and "py_getitem obj1 ''nonceServer'' = Inr nonce_server"
    and "encrypt_to_server lib (PDict [(''nonceServer'', nonce_server)]) spk = Inr env2"
    and "http world (t0 @ [Request (POST_rmap_initiate env1), Request (POST_rmap_get_link env2)])
           = Inr r2"
    and "status_code r2 = 200"
    and "response_json r2 = Inr resp2"
    and "py_getitem resp2 ''result'' = Inr link_token"
  shows "handshake lib world cfg spk cpk t0
           = download_pdf world cfg link_token
               (t0 @ [Request (POST_rmap_initiate env1), Request (POST_rmap_get_link env2)])
       \<and> test_handshake lib world cfg spk cpk t0
           = test_download world cfg link_token
               (t0 @ [Request (POST_rmap_initiate env1), Request (POST_rmap_get_link env2)])"
proof -
  let ?nonce = "int (randbits world mod 2 ^ 64)"
  let ?t1 = "t0 @ [Request (POST_rmap_initiate env1)]"
  let ?t2 = "t0 @ [Request (POST_rmap_initiate env1), Request (POST_rmap_get_link env2)]"
  note m1 = message1_answered [OF assms(1-5)]
  have r1: "response1 lib cfg resp1 cpk ?nonce = (Continue nonce_server, key')"
    using assms(5-9) by (simp add: response1_def)
  have r1': "test_response1 lib cfg resp1 cpk ?nonce = (Inr nonce_server, key')"
    using assms(5-9) by (simp add: test_response1_def test_open_eq)
  have t2: "?t1 @ [Request (POST_rmap_get_link env2)] = ?t2"
    by simp
  have m2: "message2 lib world spk nonce_server ?t1 = (Continue link_token, ?t2)"
    using assms(10-14) getitem_contains [OF assms(14)]
    by (simp add: message2_def Let_def)
  have m2': "test_message2 lib world spk nonce_server ?t1 = (Inr link_token, ?t2)"
    using assms(10-14) getitem_contains [OF assms(14)]
    by (simp add: test_message2_def test_seal_eq raise_for_status_def Let_def)
  show ?thesis
    using m1 r1 r1' m2 m2' by (simp add: handshake_def test_handshake_def Let_def)
qed


lemma happy_nonce: "randbits happy_world = 123456789"
  by (simp add: happy_world_def example_randbits)

lemma happy_http:
  \<open>http happy_world [Request (POST_rmap_initiate p)]
     = Inr \<lparr>status_code = 200, content_type = Some ''application/json'',
         content = ''{"payload":"eyJub25jZUNsaWVudCI6MTIzNDU2Nzg5LCJub25jZVNlcnZlciI6OTg3NjU0MzIxfQ=="}''\<rparr>\<close>
  \<open>http happy_world [e1, Request (POST_rmap_get_link p)]
     = Inr \<lparr>status_code = 200, content_type = Some ''application/json'',
         content = ''{"result":"abc123"}''\<rparr>\<close>
  \<open>http happy_world [e1, e2, Request (GET_get_version link)]
     = Inr \<lparr>status_code = 200, content_type = Some ''application/pdf'', content = ''%PDF''\<rparr>\<close>
  \<open>write_error happy_world t = None\<close>
  by (simp_all add: happy_world_def example_world_def example_peer_def)

lemma happy_body1:
  \<open>response_json \<lparr>status_code = 200, content_type = Some ''application/json'',
      content = ''{"payload":"eyJub25jZUNsaWVudCI6MTIzNDU2Nzg5LCJub25jZVNlcnZlciI6OTg3NjU0MzIxfQ=="}''\<rparr>
    = Inr (PDict [(''payload'',
         PStr ''eyJub25jZUNsaWVudCI6MTIzNDU2Nzg5LCJub25jZVNlcnZlciI6OTg3NjU0MzIxfQ=='')])\<close>
  by (simp add: response_json_def loads_eval)

lemma happy_body2:
  \<open>response_json \<lparr>status_code = 200, content_type = Some ''application/json'',
      content = ''{"result":"abc123"}''\<rparr>
    = Inr (PDict [(''result'', PStr ''abc123'')])\<close>
  by (simp add: response_json_def loads_eval)

theorem happy_path_witness:
  "handshake example_pgpy happy_world example_config example_server_key example_client_key []
     = (Inr True,
        [Request (POST_rmap_initiate
           ''eyJpZGVudGl0eSI6Ikdyb3VwXzA0Iiwibm9uY2VDbGllbnQiOjEyMzQ1Njc4OX0=''),
         Request (POST_rmap_get_link ''eyJub25jZVNlcnZlciI6OTg3NjU0MzIxfQ==''),
         Request (GET_get_version (PStr ''abc123'')),
         FileWrite ''watermarked_Group_04.pdf'' ''%PDF''])
   \<and> test_handshake example_pgpy happy_world example_config example_server_key
         example_client_key []
     = (Inr (),
        [Request (POST_rmap_initiate
           ''eyJpZGVudGl0eSI6Ikdyb3VwXzA0Iiwibm9uY2VDbGllbnQiOjEyMzQ1Njc4OX0=''),
         Request (POST_rmap_get_link ''eyJub25jZVNlcnZlciI6OTg3NjU0MzIxfQ==''),
         Request (GET_get_version (PStr ''abc123'')),
         FileWrite ''watermarked_Group_04.pdf'' ''%PDF''])"
  using happy_path [where lib = example_pgpy and cfg = example_config
      and world = happy_world and spk = example_server_key and cpk = example_client_key
      and ?t0.0 = "[]"
      and ?env1.0 = "''eyJpZGVudGl0eSI6Ikdyb3VwXzA0Iiwibm9uY2VDbGllbnQiOjEyMzQ1Njc4OX0=''"
      and ?r1.0 = \<open>\<lparr>status_code = 200, content_type = Some ''application/json'',
         content = ''{"payload":"eyJub25jZUNsaWVudCI6MTIzNDU2Nzg5LCJub25jZVNlcnZlciI6OTg3NjU0MzIxfQ=="}''\<rparr>\<close>
      and ?resp1.0 = "PDict [(''payload'',
           PStr ''eyJub25jZUNsaWVudCI6MTIzNDU2Nzg5LCJub25jZVNlcnZlciI6OTg3NjU0MzIxfQ=='')]"
      and payload = "PStr ''eyJub25jZUNsaWVudCI6MTIzNDU2Nzg5LCJub25jZVNlcnZlciI6OTg3NjU0MzIxfQ==''"
      and ?obj1.0 = "PDict [(''nonceClient'', PInt 123456789), (''nonceServer'', PInt 987654321)]"
      and key' = example_client_key and echoed = "PInt 123456789"
      and nonce_server = "PInt 987654321"
      and ?env2.0 = "''eyJub25jZVNlcnZlciI6OTg3NjU0MzIxfQ==''"
      and ?r2.0 = \<open>\<lparr>status_code = 200, content_type = Some ''application/json'',
         content = ''{"result":"abc123"}''\<rparr>\<close>
      and ?resp2.0 = "PDict [(''result'', PStr ''abc123'')]"
      and link_token = "PStr ''abc123''"]
  by (simp add: example_identity happy_nonce seal_message1 seal_message2 happy_http happy_body1
      happy_body2 open_response1 download_pdf_def test_download_def Let_def)

section \<open>A protected key and no passphrase\<close>

lemma open_without_passphrase:
  assumes "b64decode payload = Inr armored"
    and "PGPMessage_from_blob lib armored = Inr pgp_msg"
    and "is_protected cpk"
    and "CLIENT_PRIV_PASSPHRASE cfg = None"
  shows "decrypt_from_server lib cfg payload cpk
    = (Inl (SystemExit ''Private key needs passphrase but none provided.''), cpk)"
  using assms by (simp add: decrypt_from_server_def)

lemma message1_extends: "\<exists>rest. snd (message1 lib world cfg spk nonce t0) = t0 @ rest"
  by (auto simp: message1_def Let_def split: sum.splits)

lemma message2_extends: "\<exists>rest. snd (message2 lib world spk ns t0) = t0 @ rest"
  by (auto simp: message2_def Let_def split: sum.splits)

lemma download_pdf_extends: "\<exists>rest. snd (download_pdf world cfg link t0) = t0 @ rest"
  by (auto simp: download_pdf_def Let_def split: sum.splits option.splits)

lemma handshake_extends: "\<exists>rest. snd (handshake lib world cfg spk cpk t0) = t0 @ rest"
proof -
  obtain f1 t1 where m1: "message1 lib world cfg spk (int (randbits world mod 2 ^ 64)) t0 = (f1, t1)"
    by (cases "message1 lib world cfg spk (int (randbits world mod 2 ^ 64)) t0")
  obtain r1 where t1: "t1 = t0 @ r1"
    using message1_extends [of lib world cfg spk "int (randbits world mod 2 ^ 64)" t0] m1 by auto
  show ?thesis
  proof (cases f1)
    case (Continue resp1)
    obtain f2 k where r: "response1 lib cfg resp1 cpk (int (randbits world mod 2 ^ 64)) = (f2, k)"
      by (cases "response1 lib cfg resp1 cpk (int (randbits world mod 2 ^ 64))")
    show ?thesis
    proof (cases f2)
      case (Continue ns)
      note c2 = this
      obtain f3 t2 where m2: "message2 lib world spk ns t1 = (f3, t2)"
        by (cases "message2 lib world spk ns t1")
      obtain r2 where t2: "t2 = t1 @ r2"
        using message2_extends [of lib world spk ns t1] m2 by auto
      show ?thesis
      proof (cases f3)
        case (Continue link)
        obtain r3 where "snd (download_pdf world cfg link t2) = t2 @ r3"
          using download_pdf_extends by blast
        then show ?thesis
          using m1 \<open>f1 = Continue resp1\<close> r c2 m2 Continue t1 t2
          by (simp add: handshake_def Let_def)
      qed (use m1 \<open>f1 = Continue resp1\<close> r c2 m2 t1 t2 in \<open>simp_all add: handshake_def Let_def\<close>)
    qed (use m1 Continue r t1 in \<open>simp_all add: handshake_def Let_def\<close>)
  qed (use m1 t1 in \<open>simp_all add: handshake_def Let_def\<close>)
qed

lemma main_probes_first: "\<exists>rest. snd (main lib world cfg) = Request GET_root # rest"
proof -
  have h: "\<exists>rest. t = Request GET_root # rest"
    if "handshake lib world cfg spk cpk [Request GET_root] = (r, t)" for spk cpk r t
    using handshake_extends [of lib world cfg spk cpk "[Request GET_root]"] that by auto
  show ?thesis
    by (auto simp: main_def test_server_connectivity_def Let_def
        split: sum.splits option.splits prod.splits exn.splits dest: h)
qed

lemma pdf_getting_checks_key_first:
  assumes "PGPKey_from_file lib (CLIENT_PRIV_KEY_PATH cfg) = Inr key"
    and "PGPKey_from_file lib path = Inr spk"
    and "is_protected key" and "\<not> is_public key"
    and "\<not> PGPKey_unprotect lib key (CLIENT_PRIV_PASSPHRASE cfg)"
  shows "pdf_getting_main lib world cfg path = (Inl (SystemExit ''1''), [])"
  using assms by (simp add: pdf_getting_main_def sys_exit_on_exception_def unlock_def)

text \<open>
  C7. In \<^verbatim>\<open>fixed_rmap_client.py\<close> a protected private key with no passphrase is
  noticed only when the first answer is decrypted: when the server is reachable, the keys
  load and differ, and the peer answers message 1 with a payload that decodes, \<^verbatim>\<open>main\<close>
  raises \<^verbatim>\<open>SystemExit\<close> after it has issued two requests, \<^verbatim>\<open>GET /\<close> and the POST
  of message 1. (\<open>main_probes_first\<close>: every run of \<^verbatim>\<open>main\<close> starts with a request.
  \<open>pdf_getting_checks_key_first\<close>: \<^verbatim>\<open>rmap_client_pdf_getting.py\<close> tries the key before
  any request.)
\<close>

theorem passphrase_checked_after_requests:
  assumes "http world [Request GET_root] = Inr r0"
    and "find_and_load_server_key lib world cfg = Inr (Some (spk, path))"
    and "load_and_verify_client_key lib world cfg = Inr (Some cpk)"
    and "fingerprint spk \<noteq> fingerprint cpk"
    and "is_protected cpk"
    and "CLIENT_PRIV_PASSPHRASE cfg = None"
    and "encrypt_to_server lib
             (PDict [(''identity'', PStr (IDENTITY cfg)),
                     (''nonceClient'', PInt (int (randbits world mod 2 ^ 64)))]) spk = Inr env1"
    and "http world [Request GET_root, Request (POST_rmap_initiate env1)] = Inr r1"
    and "status_code r1 = 200"
    and "response_json r1 = Inr resp1"
    and "py_getitem resp1 ''payload'' = Inr payload"
    and "b64decode payload = Inr armored"
    and "PGPMessage_from_blob lib armored = Inr pgp_msg"
  shows "main lib world cfg
    = (Inl (SystemExit ''Private key needs passphrase but none provided.''),
       [Request GET_root, Request (POST_rmap_initiate env1)])"
proof -
  have "http world ([Request GET_root] @ [Request (POST_rmap_initiate env1)]) = Inr r1"
    using assms(8) by simp
  note m1 = message1_answered(1) [OF assms(7) this assms(9-11)]
  have "response1 lib cfg resp1 cpk (int (randbits world mod 2 ^ 64))
      = (Raise (SystemExit ''Private key needs passphrase but none provided.''), cpk)"
    using assms(11) open_without_passphrase [OF assms(12,13,5,6)]
    by (simp add: response1_def)
  then have "handshake lib world cfg spk cpk [Request GET_root]
      = (Inl (SystemExit ''Private key needs passphrase but none provided.''),
         [Request GET_root, Request (POST_rmap_initiate env1)])"
    using m1 by (simp add: handshake_def leave_def Let_def)
  then show ?thesis
    using assms(1-4)
    by (simp add: main_def test_server_connectivity_def verify_different_keys_def Let_def)
qed

theorem passphrase_checked_after_requests_witness:
  "main example_pgpy happy_world (example_config\<lparr>CLIENT_PRIV_PASSPHRASE := None\<rparr>)
    = (Inl (SystemExit ''Private key needs passphrase but none provided.''),
       [Request GET_root,
        Request (POST_rmap_initiate
          ''eyJpZGVudGl0eSI6Ikdyb3VwXzA0Iiwibm9uY2VDbGllbnQiOjEyMzQ1Njc4OX0='')])"
  using passphrase_checked_after_requests [where lib = example_pgpy and world = happy_world
      and cfg = "example_config\<lparr>CLIENT_PRIV_PASSPHRASE := None\<rparr>"
      and spk = example_server_key and cpk = example_client_key and path = "''pub.asc''"
      and ?r0.0 = "\<lparr>status_code = 200, content_type = Some ''text/html'', content = ''ok''\<rparr>"
      and ?env1.0 = "''eyJpZGVudGl0eSI6Ikdyb3VwXzA0Iiwibm9uY2VDbGllbnQiOjEyMzQ1Njc4OX0=''"
      and ?r1.0 = \<open>\<lparr>status_code = 200, content_type = Some ''application/json'',
         content = ''{"payload":"eyJub25jZUNsaWVudCI6MTIzNDU2Nzg5LCJub25jZVNlcnZlciI6OTg3NjU0MzIxfQ=="}''\<rparr>\<close>
      and ?resp1.0 = "PDict [(''payload'',
           PStr ''eyJub25jZUNsaWVudCI6MTIzNDU2Nzg5LCJub25jZVNlcnZlciI6OTg3NjU0MzIxfQ=='')]"
      and payload = "PStr ''eyJub25jZUNsaWVudCI6MTIzNDU2Nzg5LCJub25jZVNlcnZlciI6OTg3NjU0MzIxfQ==''"
      and armored = \<open>''{"nonceClient":123456789,"nonceServer":987654321}''\<close>
      and pgp_msg = \<open>''{"nonceClient":123456789,"nonceServer":987654321}''\<close>]
  by (simp add: example_identity happy_nonce seal_message1 happy_http happy_body1
      find_and_load_server_key_def load_and_verify_client_key_def)
    (simp add: example_eval happy_world_def example_world_def example_peer_def b64dec_eval)

section \<open>The download\<close>

lemma download_pdf_checks:
  assumes "http world (t @ [Request (GET_get_version link)]) = Inr resp"
    and "status_code resp \<noteq> 200 \<or> content_type resp \<noteq> Some ''application/pdf''"
  shows "download_pdf world cfg link t = (Inr False, t @ [Request (GET_get_version link)])"
    and "test_download world cfg link t
      = (Inl (SystemExit ''Failed to download version''), t @ [Request (GET_get_version link)])"
  using assms by (auto simp: download_pdf_def test_download_def Let_def)

text \<open>
  C3. In \<^verbatim>\<open>rmap_client_pdf_getting.py\<close> the download looks at the status only: for
  every answer with a status from 200 to 299, whatever its content type, the body is
  written to the file \<^verbatim>\<open>IDENTITY_watermarked.pdf\<close>. (\<open>download_pdf_checks\<close>:
  \<^verbatim>\<open>fixed_rmap_client.py\<close> and \<^verbatim>\<open>rmap_client_test.py\<close> write nothing unless the
  status is 200 and the content type is \<^verbatim>\<open>application/pdf\<close>.)
\<close>

theorem download_ignores_content_type:
  assumes "http world (t @ [Request (GET_get_version link)]) = Inr resp"
    and "200 \<le> status_code resp" and "status_code resp < 300"
    and "write_error world
           (t @ [Request (GET_get_version link),
                 FileWrite (IDENTITY cfg @ ''_watermarked.pdf'') (content resp)]) = None"
  shows "pdf_getting_step4 world cfg link t
    = (Inr (), t @ [Request (GET_get_version link),
                    FileWrite (IDENTITY cfg @ ''_watermarked.pdf'') (content resp)])"
  using assms by (simp add: pdf_getting_step4_def urlopen_def Let_def)

theorem download_ignores_content_type_witness:
  "pdf_getting_step4
     (example_world 123456789 [] []
        \<lparr>status_code = 200, content_type = Some ''text/html'', content = ''<html>error</html>''\<rparr>)
     example_config (PStr ''abc123'') []
   = (Inr (), [Request (GET_get_version (PStr ''abc123'')),
               FileWrite ''Group_04_watermarked.pdf'' ''<html>error</html>''])
   \<and> download_pdf
     (example_world 123456789 [] []
        \<lparr>status_code = 200, content_type = Some ''text/html'', content = ''<html>error</html>''\<rparr>)
     example_config (PStr ''abc123'') []
   = (Inr False, [Request (GET_get_version (PStr ''abc123''))])"
  using download_ignores_content_type [where t = "[]" and link = "PStr ''abc123''"
      and cfg = example_config
      and world = "example_world 123456789 [] []
        \<lparr>status_code = 200, content_type = Some ''text/html'', content = ''<html>error</html>''\<rparr>"
      and resp = "\<lparr>status_code = 200, content_type = Some ''text/html'',
                    content = ''<html>error</html>''\<rparr>"]
  by (simp add: example_identity download_pdf_def Let_def)
     (simp add: example_world_def example_peer_def)

section \<open>Decimal digits\<close>

lemma digit_char_cases:
  assumes "(n :: nat) < 10"
  obtains "n = 0" | "n = 1" | "n = 2" | "n = 3" | "n = 4" | "n = 5" | "n = 6" | "n = 7"
    | "n = 8" | "n = 9"
  using assms by atomize_elim presburger

lemma digit_char_digit:
  assumes "n < 10"
  shows "is_digit (digit_char n)" and "digit_val (digit_char n) = n"
    and "\<not> is_space (digit_char n)" and "digit_char n \<noteq> CHR ''_''"
    and "digit_char n \<noteq> CHR ''-''" and "digit_char n \<noteq> CHR ''+''"
  using assms
  by (cases n rule: digit_char_cases;
      simp add: digit_char_def is_digit_def digit_val_def is_space_def)+



lemma nat_repr_digits: "list_all is_digit (nat_repr n)"
proof (induction n rule: nat_repr.induct)
  case (1 n)
  show ?case
  proof (cases "n < 10")
    case True
    then show ?thesis by (simp add: nat_repr_small digit_char_digit)
  next
    case False
    then show ?thesis using 1 by (simp add: nat_repr_big digit_char_digit)
  qed
qed












section \<open>The representation of the nonces\<close>














section \<open>A boolean where the nonce is expected\<close>








section \<open>The characters of the canonical text\<close>

lemma spaces_append [simp]: "spaces (xs @ ys) = spaces xs + spaces ys"
  by (simp add: spaces_def)

lemma spaces_Nil [simp]: "spaces [] = 0"
  by (simp add: spaces_def)

lemma spaces_Cons: "spaces (c # cs) = (if c = CHR '' '' then 1 else 0) + spaces cs"
  by (simp add: spaces_def)

lemma spaces_join_comma: "spaces (join '','' xs) = sum_list (map spaces xs)"
  by (induction "'',''" xs rule: join.induct) (simp_all add: spaces_Cons)

lemma printable_join_comma:
  "list_all (list_all printable) xs \<Longrightarrow> list_all printable (join '','' xs)"
  by (induction "'',''" xs rule: join.induct) (simp_all add: printable_def)

lemma hex_digit_cases:
  assumes "(n :: nat) < 16"
  obtains "n = 0" | "n = 1" | "n = 2" | "n = 3" | "n = 4" | "n = 5" | "n = 6" | "n = 7"
    | "n = 8" | "n = 9" | "n = 10" | "n = 11" | "n = 12" | "n = 13" | "n = 14" | "n = 15"
  using assms by atomize_elim presburger

lemma hex_digit_printable:
  assumes "n < 16"
  shows "printable (hex_digit n)" and "hex_digit n \<noteq> CHR '' ''"
  using assms
  by (cases n rule: hex_digit_cases; simp add: hex_digit_def printable_def)+

lemma of_char_div_16: "(of_char (c :: char) :: nat) div 16 < 16"
proof -
  have "(of_char c :: nat) < 256" by simp
  then show ?thesis by presburger
qed

lemma escape_char_printable: "list_all printable (escape_char c)"
  using hex_digit_printable(1) [OF of_char_div_16 [of c]]
    hex_digit_printable(1) [of "of_char c mod 16"]
  by (simp add: escape_char_def printable_def)

lemma escape_char_spaces: "spaces (escape_char c) = (if c = CHR '' '' then 1 else 0)"
  using hex_digit_printable(2) [OF of_char_div_16 [of c]]
    hex_digit_printable(2) [of "of_char c mod 16"]
  by (auto simp: escape_char_def spaces_Cons)

lemma basestring_printable: "list_all printable (encode_basestring_ascii s)"
proof -
  have "list_all printable (concat (map escape_char s))"
    by (induction s) (simp_all add: escape_char_printable)
  then show ?thesis by (simp add: encode_basestring_ascii_def printable_def)
qed

lemma basestring_spaces: "spaces (encode_basestring_ascii s) = spaces s"
proof -
  have "spaces (concat (map escape_char s)) = spaces s"
    by (induction s) (simp_all add: escape_char_spaces spaces_Cons)
  then show ?thesis by (simp add: encode_basestring_ascii_def spaces_Cons)
qed

lemma is_digit_printable: "is_digit c \<Longrightarrow> printable c \<and> c \<noteq> CHR '' ''"
  by (auto simp: is_digit_def printable_def less_eq_char_def)

lemma digits_printable: "list_all is_digit ds \<Longrightarrow> list_all printable ds"
  by (induction ds) (simp_all add: is_digit_printable)

lemma int_repr_printable: "list_all printable (int_repr i)"
  by (simp add: int_repr_def digits_printable nat_repr_digits) (simp add: printable_def)

lemma digits_spaces: "list_all is_digit ds \<Longrightarrow> spaces ds = 0"
  by (induction ds) (auto simp: spaces_Cons is_digit_printable)

lemma int_repr_spaces: "spaces (int_repr i) = 0"
  by (simp add: int_repr_def spaces_Cons digits_spaces nat_repr_digits)

lemma sum_list_insort_key:
  "sum_list (map f (insort_key k x xs)) = f x + sum_list (map f xs)"
  for f :: "'a \<Rightarrow> nat"
  by (induction xs) simp_all

lemma sum_list_sort_key: "sum_list (map f (sort_key k xs)) = sum_list (map f xs)"
  for f :: "'a \<Rightarrow> nat"
  by (induction xs) (simp_all add: sum_list_insort_key)

lemma json_dumps_printable: "list_all printable (json_dumps v)"
proof (induction v)
  case (PList xs)
  then have "list_all (list_all printable) (map json_dumps xs)"
    by (simp add: list_all_iff)
  then show ?case by (simp add: printable_join_comma) (simp add: printable_def)
next
  case (PTuple xs)
  then have "list_all (list_all printable) (map json_dumps xs)"
    by (simp add: list_all_iff)
  then show ?case by (simp add: printable_join_comma) (simp add: printable_def)
next
  case (PDict d)
  have "list_all printable (encode_basestring_ascii (fst kv) @ '':'' @ json_dumps (snd kv))"
    if "kv \<in> set d" for kv
    using PDict [of kv "snd kv"] that
    by (cases kv) (simp add: basestring_printable, simp add: printable_def)
  then have "list_all (list_all printable)
      (map (\<lambda>kv. encode_basestring_ascii (fst kv) @ '':'' @ json_dumps (snd kv)) (sort_key fst d))"
    by (simp add: list_all_iff)
  then show ?case by (simp add: printable_join_comma) (simp add: printable_def)
qed (simp_all add: basestring_printable int_repr_printable, simp_all add: printable_def)

lemma json_dumps_spaces: "spaces (json_dumps v) = spaces_in v"
proof (induction v)
  case (PList xs)
  then have "map (\<lambda>x. spaces (json_dumps x)) xs = map spaces_in xs"
    by simp
  then have "sum_list (map (\<lambda>x. spaces (json_dumps x)) xs) = sum_list (map spaces_in xs)"
    by (rule arg_cong)
  then show ?case by (simp add: spaces_join_comma spaces_Cons comp_def)
next
  case (PTuple xs)
  then have "map (\<lambda>x. spaces (json_dumps x)) xs = map spaces_in xs"
    by simp
  then have "sum_list (map (\<lambda>x. spaces (json_dumps x)) xs) = sum_list (map spaces_in xs)"
    by (rule arg_cong)
  then show ?case by (simp add: spaces_join_comma spaces_Cons comp_def)
next
  case (PDict d)
  have "spaces (encode_basestring_ascii (fst kv) @ '':'' @ json_dumps (snd kv))
      = spaces (fst kv) + spaces_in (snd kv)"
    if "kv \<in> set d" for kv
    using PDict [of kv "snd kv"] that
    by (cases kv) (simp add: basestring_spaces spaces_Cons)
  then have "map (\<lambda>kv. spaces (encode_basestring_ascii (fst kv) @ '':'' @ json_dumps (snd kv))) d
      = map (\<lambda>kv. spaces (fst kv) + spaces_in (snd kv)) d"
    by simp
  then have "sum_list (map (\<lambda>kv. spaces (encode_basestring_ascii (fst kv) @ '':''
        @ json_dumps (snd kv))) (sort_key fst d))
      = sum_list (map (\<lambda>kv. spaces (fst kv) + spaces_in (snd kv)) d)"
    by (simp only: sum_list_sort_key)
  then show ?case
    by (simp add: spaces_join_comma spaces_Cons comp_def)
qed (simp_all add: basestring_spaces int_repr_spaces spaces_Cons)

text \<open>
  C4. Two logically equal mappings (the same key-value pairs, inserted in a different
  order, also inside nested mappings) serialise to byte-identical canonical plaintext.
  The plaintext is an opening brace, the items of the mapping in strictly ascending order
  of their keys, each one the key, a colon and the value, with a comma between two items,
  and a closing brace. It consists of printable ASCII characters, and it has as many
  spaces as the keys and strings of the mapping have: none is added.
\<close>

theorem canonical_determinism:
  assumes "wf_py (PDict d1)" and "wf_py (PDict d2)"
    and "same_mapping (PDict d1) (PDict d2)"
  shows "json_dumps (PDict d1) = json_dumps (PDict d2)
    \<and> (\<exists>items. set items = set d1 \<and> sorted (map fst items) \<and> distinct (map fst items)
          \<and> json_dumps (PDict d1)
              = ''{'' @ join '',''
                  (map (\<lambda>kv. encode_basestring_ascii (fst kv) @ '':'' @ json_dumps (snd kv)) items)
                @ ''}'')
    \<and> list_all printable (json_dumps (PDict d1))
    \<and> spaces (json_dumps (PDict d1)) = spaces_in (PDict d1)"
proof -
  have "json_dumps (PDict d1) = json_dumps (PDict d2)"
    using assms by (rule same_mapping_dumps)
  moreover have "set (sort_key fst d1) = set d1 \<and> sorted (map fst (sort_key fst d1))
      \<and> distinct (map fst (sort_key fst d1))"
    using assms(1) by (simp add: distinct_map)
  then have "\<exists>items. set items = set d1 \<and> sorted (map fst items) \<and> distinct (map fst items)
      \<and> json_dumps (PDict d1)
          = ''{'' @ join '',''
              (map (\<lambda>kv. encode_basestring_ascii (fst kv) @ '':'' @ json_dumps (snd kv)) items)
            @ ''}''"
    by (intro exI [of _ "sort_key fst d1"]) simp
  ultimately show ?thesis
    using json_dumps_printable [of "PDict d1"] json_dumps_spaces [of "PDict d1"] by blast
qed

theorem canonical_determinism_witness:
  \<open>json_dumps (PDict [(''nonceClient'', PInt 123456789), (''identity'', PStr ''Group 04'')])
     = ''{"identity":"Group 04","nonceClient":123456789}''
   \<and> json_dumps (PDict [(''identity'', PStr ''Group 04''), (''nonceClient'', PInt 123456789)])
     = ''{"identity":"Group 04","nonceClient":123456789}''
   \<and> spaces ''{"identity":"Group 04","nonceClient":123456789}'' = 1\<close>
proof -
  let ?d1 = "[(''nonceClient'', PInt 123456789), (''identity'', PStr ''Group 04'')]"
  let ?d2 = "[(''identity'', PStr ''Group 04''), (''nonceClient'', PInt 123456789)]"
  have a: "wf_py (PDict ?d1)" by simp
  have b: "wf_py (PDict ?d2)" by simp
  have c: "same_mapping (PDict ?d1) (PDict ?d2)" by simp
  have d: \<open>json_dumps (PDict ?d2) = ''{"identity":"Group 04","nonceClient":123456789}''\<close>
    by (simp add: dumps_eval)
  have e: "spaces_in (PDict ?d1) = 1"
    by (simp add: spaces_def)
  note th = canonical_determinism [OF a b c]
  have eq: "json_dumps (PDict ?d1) = json_dumps (PDict ?d2)"
    using th by (rule conjunct1)
  have sp: "spaces (json_dumps (PDict ?d1)) = spaces_in (PDict ?d1)"
    using th by (elim conjE)
  show ?thesis
    using sp unfolding eq d e by (intro conjI refl)
qed

end
